theory Spec2Isabelle
  imports Main
begin

section \<open>create-llama: the question flow (packages/create-llama/questions.ts)\<close>

subsection \<open>Data model\<close>

text \<open>
  The string-literal union types of the helpers become datatypes; each constructor
  stands for the string the source compares against.
\<close>

datatype template_t = Simple | Streaming | Community | Llamapack
  \<comment> \<open>"simple" | "streaming" | "community" | "llamapack"\<close>

datatype framework_t = Nextjs | Express | Fastapi
  \<comment> \<open>"nextjs" | "express" | "fastapi"\<close>

datatype engine_t = SimpleEngine | ContextEngine
  \<comment> \<open>"simple" | "context"\<close>

datatype ui_t = Html | Shadcn
  \<comment> \<open>"html" | "shadcn"\<close>

datatype vectordb_t = NoneDb | Mongo | Pg | Pinecone
  \<comment> \<open>"none" | "mongo" | "pg" | "pinecone"\<close>

datatype action_t = NoAction | VSCode | Dependencies | RunApp
  \<comment> \<open>"none" | "VSCode" | "dependencies" | "runApp"\<close>

datatype dstype_t = DsNone | DsFile | DsFolder | DsWeb
  \<comment> \<open>"none" | "file" | "folder" | "web"\<close>

datatype choice_t = ChSimple | ChExampleFile | ChLocalFile | ChLocalFolder | ChWeb
  \<comment> \<open>the values of the data source prompt:
      "simple" | "exampleFile" | "localFile" | "localFolder" | "web"\<close>

datatype platform_t = Win32 | Darwin | OtherOS

datatype lang_t = Python | Typescript

text \<open>
  The \<open>config\<close> object of a data source. A key that is absent and a key that holds
  \<open>undefined\<close> are both \<open>None\<close>.
\<close>

record ds_config =
  path :: "string option"
  useLlamaParse :: "bool option"
  baseUrl :: "string option"
  depth :: "nat option"

record data_source =
  ds_type :: dstype_t
  config :: ds_config

record tool =
  tool_name :: string
  tool_display :: string

text \<open>
  \<open>QuestionArgs\<close>: every field is optional; \<open>None\<close> is \<open>undefined\<close>. An entry of
  \<open>tools\<close> is \<open>None\<close> where \<open>supportedTools.find\<close> found nothing.
\<close>

record question_args =
  template :: "template_t option"
  framework :: "framework_t option"
  engine :: "engine_t option"
  ui :: "ui_t option"
  eslint :: "bool option"
  frontend :: "bool option"
  openAiKey :: "string option"
  llamaCloudKey :: "string option"
  model :: "string option"
  embeddingModel :: "string option"
  communityProjectPath :: "string option"
  llamapack :: "string option"
  vectorDb :: "vectordb_t option"
  externalPort :: "nat option"
  postInstallAction :: "action_t option"
  dataSource :: "data_source option"
  tools :: "tool option list option"
  files :: "string option"
  llamaParse :: "bool option"

definition emptyConfig :: ds_config where
  "emptyConfig = \<lparr>path = None, useLlamaParse = None, baseUrl = None, depth = None\<rparr>"

definition defaultDataSourceInit :: data_source where
  "defaultDataSourceInit = \<lparr>ds_type = DsNone, config = emptyConfig\<rparr>"

text \<open>
  The constant \<open>defaults\<close>. Its \<open>dataSource\<close> entry is an object that the flow may
  mutate through an alias, so the current object is an argument.
\<close>

definition defaults :: "data_source \<Rightarrow> question_args" where
  "defaults dds =
    \<lparr>template = Some Streaming,
     framework = Some Nextjs,
     engine = Some SimpleEngine,
     ui = Some Html,
     eslint = Some True,
     frontend = Some False,
     openAiKey = Some [],
     llamaCloudKey = Some [],
     model = Some ''gpt-3.5-turbo'',
     embeddingModel = Some ''text-embedding-ada-002'',
     communityProjectPath = Some [],
     llamapack = Some [],
     vectorDb = None,
     externalPort = None,
     postInstallAction = Some Dependencies,
     dataSource = Some dds,
     tools = Some [],
     files = None,
     llamaParse = None\<rparr>"

subsection \<open>Environment, operator and state\<close>

text \<open>
  Everything the flow reads from outside: \<open>ciInfo.isCI\<close>, \<open>process.platform\<close>,
  \<open>process.env\<close>, the file system, the remote template list, the native file dialogs,
  and the library functions \<open>path.extname\<close>, \<open>new URL(_).protocol\<close>,
  \<open>supportedTools\<close> and \<open>toolsRequireConfig\<close> of the helpers. A field of option type
  is \<open>None\<close> where the call throws.
\<close>

record env =
  isCI :: bool
  platform :: platform_t
  OPENAI_API_KEY :: "string option"
  LLAMA_CLOUD_API_KEY :: "string option"
  existsSync :: "string \<Rightarrow> bool"
  isDirectory :: "string \<Rightarrow> bool"
  vectordbDirs :: "lang_t \<Rightarrow> string list option"
  getRepoRootFolders :: "string list option"
  getAvailableLlamapackOptions :: "(string \<times> string) list option"
  execSelect :: "dstype_t \<Rightarrow> string option"
  extname :: "string \<Rightarrow> string"
  urlProtocol :: "string \<Rightarrow> string option"
  supportedTools :: "tool list"
  toolsRequireConfig :: "tool option list option \<Rightarrow> bool"

datatype 'a response = Abort | Answer 'a

text \<open>What the operator does at each prompt, by the prompt's \<open>name\<close>.\<close>

record operator =
  ans_template :: "template_t response"
  ans_communityProjectPath :: "string response"
  ans_llamapack :: "string response"
  ans_framework :: "framework_t response"
  ans_frontend :: "bool response"
  ans_ui :: "ui_t response"
  ans_model :: "string response"
  ans_embeddingModel :: "string response"
  ans_dataSource :: "choice_t response"
  ans_useLlamaParse :: "bool response"
  ans_llamaCloudKey :: "string response"
  ans_baseUrl :: "string response"
  ans_vectorDb :: "vectordb_t response"
  ans_toolsName :: "string list response"
  ans_key :: "string response"
  ans_eslint :: "bool response"
  ans_action :: "action_t response"

datatype prompt_t =
  PTemplate | PCommunityProjectPath | PLlamapack | PFramework | PFrontend | PUi
  | PModel | PEmbeddingModel | PDataSource | PUseLlamaParse | PLlamaCloudKey
  | PBaseUrl | PVectorDb | PToolsName | PKey | PEslint | PAction

text \<open>
  \<open>process.exit(code)\<close> after the given console writes, or a rejected promise
  (an exception that nothing catches).
\<close>

datatype failure = Exit nat "string list" | Rejected

text \<open>Which object \<open>program.dataSource\<close> refers to.\<close>

datatype ds_ref = Own | RefPreferences | RefDefaults

text \<open>
  \<open>prompted\<close> lists the prompts issued so far, each with the values of the choices
  it offered (empty for text and toggle prompts).
\<close>

record state =
  program :: question_args
  preferences :: question_args
  defaultDataSource :: data_source
  dsRef :: ds_ref
  prompted :: "(prompt_t \<times> string list) list"

type_synonym 'a result = "failure + 'a"

definition thenDo :: "'a result \<Rightarrow> ('a \<Rightarrow> 'b result) \<Rightarrow> 'b result" where
  "thenDo r f = (case r of Inl e \<Rightarrow> Inl e | Inr a \<Rightarrow> f a)"

subsection \<open>JavaScript truthiness and \<open>??\<close>\<close>

definition truthy :: "string option \<Rightarrow> bool" where
  "truthy x = (case x of None \<Rightarrow> False | Some v \<Rightarrow> v \<noteq> [])"

definition truthyBool :: "bool option \<Rightarrow> bool" where
  "truthyBool x = (x = Some True)"

definition nullish :: "'a option \<Rightarrow> 'a option \<Rightarrow> 'a option" where
  "nullish a b = (case a of None \<Rightarrow> b | Some v \<Rightarrow> Some v)"

definition getPrefOrDefault :: "(question_args \<Rightarrow> 'a option) \<Rightarrow> state \<Rightarrow> 'a option" where
  "getPrefOrDefault field s = nullish (field (preferences s)) (field (defaults (defaultDataSource s)))"

subsection \<open>The prompts library\<close>

text \<open>
  A prompt either yields the operator's answer or is aborted. With \<open>handlers\<close>, an abort
  runs \<open>onCancel\<close>; with \<open>onState: onPromptState\<close>, it runs \<open>onPromptState\<close>; with
  neither, \<open>prompts\<close> returns an object without the answer.
\<close>

definition cursorShow :: string where
  "cursorShow = CHR 0x1B # ''[?25h''"

definition onCancel :: failure where
  "onCancel = Exit 1 [''Exiting.'']"

definition onPromptState :: failure where
  "onPromptState = Exit 1 [cursorShow, [CHR 0x0A]]"

definition logPrompt :: "prompt_t \<Rightarrow> string list \<Rightarrow> state \<Rightarrow> state" where
  "logPrompt p choices s = s\<lparr>prompted := prompted s @ [(p, choices)]\<rparr>"

definition promptHandlers ::
    "prompt_t \<Rightarrow> string list \<Rightarrow> 'a response \<Rightarrow> state \<Rightarrow> ('a \<times> state) result" where
  "promptHandlers p choices r s =
     (case r of Abort \<Rightarrow> Inl onCancel | Answer a \<Rightarrow> Inr (a, logPrompt p choices s))"

definition promptOnState ::
    "prompt_t \<Rightarrow> string list \<Rightarrow> 'a response \<Rightarrow> state \<Rightarrow> ('a \<times> state) result" where
  "promptOnState p choices r s =
     (case r of Abort \<Rightarrow> Inl onPromptState | Answer a \<Rightarrow> Inr (a, logPrompt p choices s))"

definition promptPlain ::
    "prompt_t \<Rightarrow> string list \<Rightarrow> 'a response \<Rightarrow> state \<Rightarrow> ('a option \<times> state) result" where
  "promptPlain p choices r s =
     (case r of Abort \<Rightarrow> Inr (None, logPrompt p choices s)
      | Answer a \<Rightarrow> Inr (Some a, logPrompt p choices s))"

subsection \<open>Choice values\<close>

fun actionValue :: "action_t \<Rightarrow> string" where
  "actionValue NoAction = ''none''"
| "actionValue VSCode = ''VSCode''"
| "actionValue Dependencies = ''dependencies''"
| "actionValue RunApp = ''runApp''"

subsection \<open>askPostInstallAction\<close>

definition openAiKeyConfigured :: "env \<Rightarrow> question_args \<Rightarrow> bool" where
  "openAiKeyConfigured e p = (truthy (openAiKey p) \<or> truthy (OPENAI_API_KEY e))"

definition requestsLlamaParse :: "question_args \<Rightarrow> bool" where
  "requestsLlamaParse p =
     (case dataSource p of None \<Rightarrow> False | Some d \<Rightarrow> truthyBool (useLlamaParse (config d)))"

definition llamaCloudKeyConfigured :: "env \<Rightarrow> question_args \<Rightarrow> bool" where
  "llamaCloudKeyConfigured e p =
     (if requestsLlamaParse p
      then truthy (llamaCloudKey p) \<or> truthy (LLAMA_CLOUD_API_KEY e)
      else True)"

definition hasVectorDb :: "question_args \<Rightarrow> bool" where
  "hasVectorDb p = (case vectorDb p of None \<Rightarrow> False | Some v \<Rightarrow> v \<noteq> NoneDb)"

definition actionChoices :: "env \<Rightarrow> question_args \<Rightarrow> action_t list" where
  "actionChoices e p =
     [NoAction, VSCode, Dependencies] @
     (if \<not> hasVectorDb p \<and> openAiKeyConfigured e p \<and> llamaCloudKeyConfigured e p
         \<and> \<not> toolsRequireConfig e (tools p) \<and> \<not> truthy (llamapack p)
      then [RunApp] else [])"

text \<open>Lines 208-266. The prompt offers \<open>actionChoices\<close>.\<close>

definition askPostInstallAction :: "env \<Rightarrow> operator \<Rightarrow> state \<Rightarrow> state result" where
  "askPostInstallAction e ops s =
     (if postInstallAction (program s) = None then
        if isCI e then
          Inr (s\<lparr>program := (program s)\<lparr>postInstallAction := getPrefOrDefault postInstallAction s\<rparr>\<rparr>)
        else
          thenDo (promptHandlers PAction (map actionValue (actionChoices e (program s)))
                    (ans_action ops) s)
            (\<lambda>(action, s1). Inr (s1\<lparr>program := (program s1)\<lparr>postInstallAction := Some action\<rparr>\<rparr>))
      else Inr s)"

subsection \<open>The first questions: template, community project, LlamaPack\<close>

text \<open>
  The body of \<open>askQuestions\<close> is a sequence of blocks, one per question; each block
  is a function here, named after its question, and they are composed in source order at
  the end. A run starts from the \<open>program\<close> and \<open>preferences\<close> objects of the
  caller, taken to be distinct objects, and from the \<open>defaults\<close> as declared. Console
  writes are recorded as their text, without the colour codes of \<open>red\<close>.
\<close>

definition initState :: "question_args \<Rightarrow> question_args \<Rightarrow> state" where
  "initState prog prefs =
     \<lparr>program = prog, preferences = prefs, defaultDataSource = defaultDataSourceInit,
      dsRef = Own, prompted = []\<rparr>"

text \<open>Lines 268-299.\<close>

definition askTemplate :: "env \<Rightarrow> operator \<Rightarrow> state \<Rightarrow> state result" where
  "askTemplate e ops s =
     (if template (program s) = None then
        if isCI e then
          Inr (s\<lparr>program := (program s)\<lparr>template := getPrefOrDefault template s\<rparr>\<rparr>)
        else
          thenDo (promptHandlers PTemplate [''simple'', ''streaming'', ''community'', ''llamapack'']
                    (ans_template ops) s)
            (\<lambda>(t, s1). Inr (s1\<lparr>program := (program s1)\<lparr>template := Some t\<rparr>,
                                 preferences := (preferences s1)\<lparr>template := Some t\<rparr>\<rparr>))
      else Inr s)"

text \<open>Lines 301-322, without the \<open>return\<close>.\<close>

definition askCommunityProjectPath :: "env \<Rightarrow> operator \<Rightarrow> state \<Rightarrow> state result" where
  "askCommunityProjectPath e ops s =
     (case getRepoRootFolders e of
        None \<Rightarrow> Inl Rejected
      | Some rootFolderNames \<Rightarrow>
          thenDo (promptHandlers PCommunityProjectPath rootFolderNames
                    (ans_communityProjectPath ops) s)
            (\<lambda>(c, s1). Inr (s1\<lparr>program := (program s1)\<lparr>communityProjectPath := Some c\<rparr>,
                                 preferences := (preferences s1)\<lparr>communityProjectPath := Some c\<rparr>\<rparr>)))"

text \<open>Lines 324-340.\<close>

definition askLlamapack :: "env \<Rightarrow> operator \<Rightarrow> state \<Rightarrow> state result" where
  "askLlamapack e ops s =
     (case getAvailableLlamapackOptions e of
        None \<Rightarrow> Inl Rejected
      | Some availableLlamaPacks \<Rightarrow>
          thenDo (promptHandlers PLlamapack (map snd availableLlamaPacks) (ans_llamapack ops) s)
            (\<lambda>(l, s1). Inr (s1\<lparr>program := (program s1)\<lparr>llamapack := Some l\<rparr>,
                                 preferences := (preferences s1)\<lparr>llamapack := Some l\<rparr>\<rparr>)))"

subsection \<open>Framework, frontend, UI, models\<close>

fun frameworkValue :: "framework_t \<Rightarrow> string" where
  "frameworkValue Nextjs = ''nextjs''"
| "frameworkValue Express = ''express''"
| "frameworkValue Fastapi = ''fastapi''"

definition frameworkChoices :: "template_t option \<Rightarrow> framework_t list" where
  "frameworkChoices t = (if t = Some Streaming then [Nextjs] else []) @ [Express, Fastapi]"

text \<open>Lines 345-371.\<close>

definition askFramework :: "env \<Rightarrow> operator \<Rightarrow> state \<Rightarrow> state result" where
  "askFramework e ops s =
     (if framework (program s) = None then
        if isCI e then
          Inr (s\<lparr>program := (program s)\<lparr>framework := getPrefOrDefault framework s\<rparr>\<rparr>)
        else
          thenDo (promptHandlers PFramework
                    (map frameworkValue (frameworkChoices (template (program s))))
                    (ans_framework ops) s)
            (\<lambda>(f, s1). Inr (s1\<lparr>program := (program s1)\<lparr>framework := Some f\<rparr>,
                                 preferences := (preferences s1)\<lparr>framework := Some f\<rparr>\<rparr>))
      else Inr s)"

text \<open>Lines 373-406.\<close>

definition askFrontend :: "env \<Rightarrow> operator \<Rightarrow> state \<Rightarrow> state result" where
  "askFrontend e ops s =
     (if template (program s) = Some Streaming
         \<and> (framework (program s) = Some Express \<or> framework (program s) = Some Fastapi)
      then
        if frontend (program s) = None then
          if isCI e then
            Inr (s\<lparr>program := (program s)\<lparr>frontend := getPrefOrDefault frontend s\<rparr>\<rparr>)
          else
            thenDo (promptOnState PFrontend [] (ans_frontend ops) s)
              (\<lambda>(b, s1). Inr (s1\<lparr>program := (program s1)\<lparr>frontend := Some b\<rparr>,
                                   preferences := (preferences s1)\<lparr>frontend := Some b\<rparr>\<rparr>))
        else Inr s
      else Inr (s\<lparr>program := (program s)\<lparr>frontend := Some False\<rparr>\<rparr>))"

text \<open>Lines 408-430.\<close>

definition askUi :: "env \<Rightarrow> operator \<Rightarrow> state \<Rightarrow> state result" where
  "askUi e ops s =
     (if framework (program s) = Some Nextjs \<or> truthyBool (frontend (program s)) then
        if ui (program s) = None then
          if isCI e then
            Inr (s\<lparr>program := (program s)\<lparr>ui := getPrefOrDefault ui s\<rparr>\<rparr>)
          else
            thenDo (promptHandlers PUi [''html'', ''shadcn''] (ans_ui ops) s)
              (\<lambda>(u, s1). Inr (s1\<lparr>program := (program s1)\<lparr>ui := Some u\<rparr>,
                                   preferences := (preferences s1)\<lparr>ui := Some u\<rparr>\<rparr>))
        else Inr s
      else Inr s)"

text \<open>Lines 432-457.\<close>

definition askModel :: "env \<Rightarrow> operator \<Rightarrow> state \<Rightarrow> state result" where
  "askModel e ops s =
     (if \<not> truthy (model (program s)) then
        if isCI e then
          Inr (s\<lparr>program := (program s)\<lparr>model := getPrefOrDefault model s\<rparr>\<rparr>)
        else
          thenDo (promptHandlers PModel
                    [''gpt-3.5-turbo-0125'', ''gpt-4-turbo-preview'', ''gpt-4'', ''gpt-4-vision-preview'']
                    (ans_model ops) s)
            (\<lambda>(m, s1). Inr (s1\<lparr>program := (program s1)\<lparr>model := Some m\<rparr>,
                                 preferences := (preferences s1)\<lparr>model := Some m\<rparr>\<rparr>))
      else Inr s)"

text \<open>Lines 459-489.\<close>

definition askEmbeddingModel :: "env \<Rightarrow> operator \<Rightarrow> state \<Rightarrow> state result" where
  "askEmbeddingModel e ops s =
     (if \<not> truthy (embeddingModel (program s)) \<and> framework (program s) = Some Fastapi then
        if isCI e then
          Inr (s\<lparr>program := (program s)\<lparr>embeddingModel := getPrefOrDefault embeddingModel s\<rparr>\<rparr>)
        else
          thenDo (promptHandlers PEmbeddingModel
                    [''text-embedding-ada-002'', ''text-embedding-3-small'', ''text-embedding-3-large'']
                    (ans_embeddingModel ops) s)
            (\<lambda>(m, s1). Inr (s1\<lparr>program := (program s1)\<lparr>embeddingModel := Some m\<rparr>,
                                 preferences := (preferences s1)\<lparr>embeddingModel := Some m\<rparr>\<rparr>))
      else Inr s)"

subsection \<open>Data source\<close>

text \<open>
  Assigning an object literal to \<open>program.dataSource\<close> makes it an object of its own;
  writing a property of \<open>program.dataSource\<close> changes the object it refers to, which
  may be the one of \<open>preferences\<close> or of \<open>defaults\<close>.
\<close>

definition assignDataSource :: "data_source \<Rightarrow> state \<Rightarrow> state" where
  "assignDataSource d s = s\<lparr>program := (program s)\<lparr>dataSource := Some d\<rparr>, dsRef := Own\<rparr>"

definition writeDataSource :: "data_source \<Rightarrow> state \<Rightarrow> state" where
  "writeDataSource d s =
     (case dsRef s of
        Own \<Rightarrow> s\<lparr>program := (program s)\<lparr>dataSource := Some d\<rparr>\<rparr>
      | RefPreferences \<Rightarrow>
          s\<lparr>program := (program s)\<lparr>dataSource := Some d\<rparr>,
            preferences := (preferences s)\<lparr>dataSource := Some d\<rparr>\<rparr>
      | RefDefaults \<Rightarrow>
          s\<lparr>program := (program s)\<lparr>dataSource := Some d\<rparr>, defaultDataSource := d\<rparr>)"

definition setEngine :: "engine_t \<Rightarrow> state \<Rightarrow> state" where
  "setEngine g s = s\<lparr>program := (program s)\<lparr>engine := Some g\<rparr>\<rparr>"

text \<open>
  Lines 491-505. The statement \<open>program.engine == "context"\<close> is a comparison and
  changes nothing.
\<close>

definition useFiles :: "env \<Rightarrow> state \<Rightarrow> state result" where
  "useFiles e s =
     (case files (program s) of
        None \<Rightarrow> Inr s
      | Some f \<Rightarrow>
          if f = [] then Inr s
          else if \<not> existsSync e f then Inl (Exit 1 [''File or folder not found''])
          else Inr (assignDataSource
                      \<lparr>ds_type = (if isDirectory e f then DsFolder else DsFile),
                       config = emptyConfig\<lparr>path := Some f\<rparr>\<rparr> s))"

definition supportedContextFileTypes :: "string list" where
  "supportedContextFileTypes = [''.pdf'', ''.doc'', ''.docx'', ''.xls'', ''.xlsx'', ''.csv'']"

fun choiceValue :: "choice_t \<Rightarrow> string" where
  "choiceValue ChSimple = ''simple''"
| "choiceValue ChExampleFile = ''exampleFile''"
| "choiceValue ChLocalFile = ''localFile''"
| "choiceValue ChLocalFolder = ''localFolder''"
| "choiceValue ChWeb = ''web''"

definition getDataSourceChoices :: "env \<Rightarrow> framework_t option \<Rightarrow> choice_t list" where
  "getDataSourceChoices e fw =
     [ChSimple, ChExampleFile]
     @ (if platform e = Win32 \<or> platform e = Darwin then [ChLocalFile, ChLocalFolder] else [])
     @ (if fw = Some Fastapi then [ChWeb] else [])"

text \<open>
  Lines 143-187. \<open>execSelect\<close> is the trimmed output of the file dialog script for
  the platform.
\<close>

definition selectLocalContextData :: "env \<Rightarrow> dstype_t \<Rightarrow> string result" where
  "selectLocalContextData e ty =
     (if platform e = OtherOS then Inl (Exit 1 [''Unsupported OS error!''])
      else
        case execSelect e ty of
          None \<Rightarrow>
            Inl (Exit 1 [''Got an error when trying to select local context data! Please try again or select another data source option.''])
        | Some selectedPath \<Rightarrow>
            if ty = DsFile \<and> extname e selectedPath \<notin> set supportedContextFileTypes
            then Inl (Exit 1 [''Please select a supported file type: .pdf,.doc,.docx,.xls,.xlsx,.csv''])
            else Inr selectedPath)"

text \<open>Line 522: \<open>program.dataSource = getPrefOrDefault("dataSource")\<close>.\<close>

definition aliasPrefOrDefault :: "state \<Rightarrow> state" where
  "aliasPrefOrDefault s =
     (case dataSource (preferences s) of
        Some d \<Rightarrow> s\<lparr>program := (program s)\<lparr>dataSource := Some d\<rparr>, dsRef := RefPreferences\<rparr>
      | None \<Rightarrow>
          s\<lparr>program := (program s)\<lparr>dataSource := Some (defaultDataSource s)\<rparr>,
            dsRef := RefDefaults\<rparr>)"

text \<open>Lines 523-557, the \<open>switch\<close> on the answer.\<close>

definition applyChoice :: "env \<Rightarrow> choice_t \<Rightarrow> state \<Rightarrow> state result" where
  "applyChoice e ch s =
     (case dataSource (program s) of
        None \<Rightarrow> Inr s
      | Some d \<Rightarrow>
         (case ch of
            ChSimple \<Rightarrow>
              Inr (assignDataSource \<lparr>ds_type = DsNone, config = emptyConfig\<rparr>
                     (setEngine SimpleEngine s))
          | ChExampleFile \<Rightarrow>
              Inr (assignDataSource \<lparr>ds_type = DsFolder, config = emptyConfig\<rparr>
                     (setEngine ContextEngine s))
          | ChLocalFile \<Rightarrow>
              thenDo (selectLocalContextData e DsFile)
                (\<lambda>selected. Inr (assignDataSource
                     \<lparr>ds_type = DsFile, config = emptyConfig\<lparr>path := Some selected\<rparr>\<rparr>
                     (setEngine ContextEngine s)))
          | ChLocalFolder \<Rightarrow>
              thenDo (selectLocalContextData e DsFolder)
                (\<lambda>selected. Inr (assignDataSource
                     \<lparr>ds_type = DsFolder, config = emptyConfig\<lparr>path := Some selected\<rparr>\<rparr>
                     (setEngine ContextEngine s)))
          | ChWeb \<Rightarrow>
              Inr (writeDataSource (d\<lparr>ds_type := DsWeb\<rparr>) (setEngine ContextEngine s))))"

text \<open>Lines 507-572.\<close>

definition askDataSource :: "env \<Rightarrow> operator \<Rightarrow> state \<Rightarrow> state result" where
  "askDataSource e ops s =
     (if engine (program s) = None then
        if isCI e then
          Inr (s\<lparr>program := (program s)\<lparr>engine := getPrefOrDefault engine s\<rparr>\<rparr>)
        else
          thenDo (promptHandlers PDataSource
                    (map choiceValue (getDataSourceChoices e (framework (program s))))
                    (ans_dataSource ops) s)
            (\<lambda>(ch, s1). applyChoice e ch (aliasPrefOrDefault s1))
      else if dataSource (program s) = None then
        (case engine (program s) of
           Some ContextEngine \<Rightarrow>
             Inr (assignDataSource \<lparr>ds_type = DsFolder, config = emptyConfig\<rparr> s)
         | Some SimpleEngine \<Rightarrow>
             Inr (assignDataSource \<lparr>ds_type = DsNone, config = emptyConfig\<rparr> s)
         | None \<Rightarrow> Inr s)
      else Inr s)"

text \<open>Lines 574-628, in three parts.\<close>

definition pathIsPdf :: "env \<Rightarrow> ds_config \<Rightarrow> bool" where
  "pathIsPdf e c = (case path c of None \<Rightarrow> False | Some f \<Rightarrow> f \<noteq> [] \<and> extname e f = ''.pdf'')"

definition askUseLlamaParse :: "operator \<Rightarrow> data_source \<Rightarrow> state \<Rightarrow> (data_source \<times> state) result" where
  "askUseLlamaParse ops d s =
     thenDo (promptHandlers PUseLlamaParse [] (ans_useLlamaParse ops) s)
       (\<lambda>(u, s1). Inr (d\<lparr>config := (config d)\<lparr>useLlamaParse := Some u\<rparr>\<rparr>,
                          writeDataSource (d\<lparr>config := (config d)\<lparr>useLlamaParse := Some u\<rparr>\<rparr>) s1))"

definition askLlamaCloudKey :: "operator \<Rightarrow> data_source \<Rightarrow> state \<Rightarrow> state result" where
  "askLlamaCloudKey ops d s =
     (if truthyBool (useLlamaParse (config d)) \<and> llamaCloudKey (program s) = None then
        thenDo (promptHandlers PLlamaCloudKey [] (ans_llamaCloudKey ops) s)
          (\<lambda>(k, s1). Inr (s1\<lparr>program := (program s1)\<lparr>llamaCloudKey := Some k\<rparr>\<rparr>))
      else Inr s)"

definition askLlamaParse :: "env \<Rightarrow> operator \<Rightarrow> state \<Rightarrow> state result" where
  "askLlamaParse e ops s =
     (case dataSource (program s) of
        None \<Rightarrow> Inr s
      | Some d \<Rightarrow>
          if (ds_type d = DsFile \<or> ds_type d = DsFolder) \<and> framework (program s) = Some Fastapi
          then
            if isCI e then
              Inr (s\<lparr>program := (program s)\<lparr>llamaCloudKey := getPrefOrDefault llamaCloudKey s\<rparr>\<rparr>)
            else
              thenDo
                (if llamaParse (program s) = None
                     \<and> (if ds_type d = DsFolder then True else pathIsPdf e (config d))
                 then askUseLlamaParse ops (d\<lparr>config := (config d)\<lparr>useLlamaParse := llamaParse (program s)\<rparr>\<rparr>)
                        (writeDataSource (d\<lparr>config := (config d)\<lparr>useLlamaParse := llamaParse (program s)\<rparr>\<rparr>) s)
                 else Inr (d\<lparr>config := (config d)\<lparr>useLlamaParse := llamaParse (program s)\<rparr>\<rparr>,
                           writeDataSource (d\<lparr>config := (config d)\<lparr>useLlamaParse := llamaParse (program s)\<rparr>\<rparr>) s))
                (\<lambda>(d1, s1). askLlamaCloudKey ops d1 s1)
          else Inr s)"

fun str_includes :: "string \<Rightarrow> string \<Rightarrow> bool" where
  "str_includes [] sub = (sub = [])"
| "str_includes (c # cs) sub = (take (length sub) (c # cs) = sub \<or> str_includes cs sub)"

text \<open>Lines 630-660. \<open>urlProtocol\<close> is \<open>None\<close> where \<open>new URL\<close> throws.\<close>

definition normalizeUrl :: "string \<Rightarrow> string" where
  "normalizeUrl u = (if \<not> str_includes u ''://'' then ''https://'' @ u else u)"

definition validUrl :: "env \<Rightarrow> string \<Rightarrow> bool" where
  "validUrl e u =
     (case urlProtocol e u of
        None \<Rightarrow> False
      | Some protocol \<Rightarrow> \<not> (protocol \<noteq> ''https:'' \<and> protocol \<noteq> ''http:''))"

definition invalidUrlExit :: failure where
  "invalidUrlExit =
     Exit 1 [''Invalid URL provided! Please provide a valid URL (e.g. https://www.llamaindex.ai)'']"

definition askBaseUrl :: "env \<Rightarrow> operator \<Rightarrow> state \<Rightarrow> state result" where
  "askBaseUrl e ops s =
     (case dataSource (program s) of
        None \<Rightarrow> Inr s
      | Some d \<Rightarrow>
          if ds_type d = DsWeb \<and> framework (program s) = Some Fastapi then
            thenDo (promptHandlers PBaseUrl [] (ans_baseUrl ops) s)
              (\<lambda>(u, s1).
                 if validUrl e (normalizeUrl u) then
                   Inr (writeDataSource
                          (d\<lparr>config := \<lparr>path = None, useLlamaParse = None,
                                         baseUrl = Some (normalizeUrl u), depth = Some 1\<rparr>\<rparr>) s1)
                 else Inl invalidUrlExit)
          else Inr s)"

subsection \<open>Vector database, tools, key, ESLint\<close>

fun vectorDbValue :: "vectordb_t \<Rightarrow> string" where
  "vectorDbValue NoneDb = ''none''"
| "vectorDbValue Mongo = ''mongo''"
| "vectorDbValue Pg = ''pg''"
| "vectorDbValue Pinecone = ''pinecone''"

text \<open>Lines 90-114 and 662-679.\<close>

definition getVectorDbChoices :: "env \<Rightarrow> framework_t option \<Rightarrow> vectordb_t list option" where
  "getVectorDbChoices e fw =
     (case vectordbDirs e (if fw = Some Fastapi then Python else Typescript) of
        None \<Rightarrow> None
      | Some availableChoices \<Rightarrow>
          Some (filter (\<lambda>choice. vectorDbValue choice \<in> set availableChoices)
                  [NoneDb, Mongo, Pg, Pinecone]))"

definition askVectorDb :: "env \<Rightarrow> operator \<Rightarrow> state \<Rightarrow> state result" where
  "askVectorDb e ops s =
     (if engine (program s) \<noteq> Some SimpleEngine \<and> vectorDb (program s) = None then
        if isCI e then
          Inr (s\<lparr>program := (program s)\<lparr>vectorDb := getPrefOrDefault vectorDb s\<rparr>\<rparr>)
        else
          case getVectorDbChoices e (framework (program s)) of
            None \<Rightarrow> Inl Rejected
          | Some choices \<Rightarrow>
              thenDo (promptHandlers PVectorDb (map vectorDbValue choices) (ans_vectorDb ops) s)
                (\<lambda>(v, s1). Inr (s1\<lparr>program := (program s1)\<lparr>vectorDb := Some v\<rparr>,
                                     preferences := (preferences s1)\<lparr>vectorDb := Some v\<rparr>\<rparr>))
      else Inr s)"

text \<open>Lines 681-706. The prompt is called without \<open>handlers\<close>.\<close>

definition findTools :: "env \<Rightarrow> string list option \<Rightarrow> tool option list option" where
  "findTools e toolsName =
     map_option (map (\<lambda>name. find (\<lambda>t. tool_name t = name) (supportedTools e))) toolsName"

definition askTools :: "env \<Rightarrow> operator \<Rightarrow> state \<Rightarrow> state result" where
  "askTools e ops s =
     (if tools (program s) = None \<and> framework (program s) = Some Fastapi
         \<and> engine (program s) = Some ContextEngine
      then
        if isCI e then
          Inr (s\<lparr>program := (program s)\<lparr>tools := getPrefOrDefault tools s\<rparr>\<rparr>)
        else
          thenDo (promptPlain PToolsName (map tool_name (supportedTools e)) (ans_toolsName ops) s)
            (\<lambda>(toolsName, s1).
               Inr (s1\<lparr>program := (program s1)\<lparr>tools := findTools e toolsName\<rparr>,
                       preferences := (preferences s1)\<lparr>tools := findTools e toolsName\<rparr>\<rparr>))
      else Inr s)"

text \<open>Lines 708-719.\<close>

definition askOpenAiKey :: "env \<Rightarrow> operator \<Rightarrow> state \<Rightarrow> state result" where
  "askOpenAiKey e ops s =
     (if \<not> truthy (openAiKey (program s)) then
        thenDo (promptHandlers PKey [] (ans_key ops) s)
          (\<lambda>(k, s1). Inr (s1\<lparr>program := (program s1)\<lparr>openAiKey := Some k\<rparr>,
                               preferences := (preferences s1)\<lparr>openAiKey := Some k\<rparr>\<rparr>))
      else Inr s)"

text \<open>Lines 721-738.\<close>

definition askEslint :: "env \<Rightarrow> operator \<Rightarrow> state \<Rightarrow> state result" where
  "askEslint e ops s =
     (if framework (program s) \<noteq> Some Fastapi \<and> eslint (program s) = None then
        if isCI e then
          Inr (s\<lparr>program := (program s)\<lparr>eslint := getPrefOrDefault eslint s\<rparr>\<rparr>)
        else
          thenDo (promptOnState PEslint [] (ans_eslint ops) s)
            (\<lambda>(b, s1). Inr (s1\<lparr>program := (program s1)\<lparr>eslint := Some b\<rparr>,
                                 preferences := (preferences s1)\<lparr>eslint := Some b\<rparr>\<rparr>))
      else Inr s)"

subsection \<open>askQuestions\<close>

text \<open>Lines 345-740, for the templates other than "community" and "llamapack".\<close>

definition askRest :: "env \<Rightarrow> operator \<Rightarrow> state \<Rightarrow> state result" where
  "askRest e ops s0 =
     thenDo (askFramework e ops s0) (\<lambda>s1.
     thenDo (askFrontend e ops s1) (\<lambda>s2.
     thenDo (askUi e ops s2) (\<lambda>s3.
     thenDo (askModel e ops s3) (\<lambda>s4.
     thenDo (askEmbeddingModel e ops s4) (\<lambda>s5.
     thenDo (useFiles e s5) (\<lambda>s6.
     thenDo (askDataSource e ops s6) (\<lambda>s7.
     thenDo (askLlamaParse e ops s7) (\<lambda>s8.
     thenDo (askBaseUrl e ops s8) (\<lambda>s9.
     thenDo (askVectorDb e ops s9) (\<lambda>s10.
     thenDo (askTools e ops s10) (\<lambda>s11.
     thenDo (askOpenAiKey e ops s11) (\<lambda>s12.
     thenDo (askEslint e ops s12) (\<lambda>s13.
     askPostInstallAction e ops s13)))))))))))))"

definition afterTemplate :: "env \<Rightarrow> operator \<Rightarrow> state \<Rightarrow> state result" where
  "afterTemplate e ops s =
     (if template (program s) = Some Community then askCommunityProjectPath e ops s
      else if template (program s) = Some Llamapack then
        thenDo (askLlamapack e ops s) (askPostInstallAction e ops)
      else askRest e ops s)"

definition askQuestions :: "env \<Rightarrow> operator \<Rightarrow> question_args \<Rightarrow> question_args \<Rightarrow> state result" where
  "askQuestions e ops prog prefs =
     thenDo (askTemplate e ops (initState prog prefs)) (afterTemplate e ops)"

section \<open>PineconeVectorStore.add (packages/core/src/storage/vectorStore/PineconeVectorStore.ts)\<close>

record ('e, 'm) pinecone_record =
  record_id :: "string option"
  record_values :: 'e
  record_metadata :: 'm

datatype ('e, 'm) call =
  NewPinecone | Index string | Upsert "('e, 'm) pinecone_record list"

text \<open>
  What \<open>add\<close> calls outside this class: the node's \<open>id_\<close> (here \<open>node_id\<close>), \<open>getEmbedding\<close> and
  \<open>nodeToMetadata\<close> (\<open>None\<close> where they throw), whether \<open>new Pinecone()\<close> succeeds, and
  whether \<open>idx.upsert\<close> succeeds on a chunk, given the calls made before it.
\<close>

record ('n, 'e, 'm) pinecone_env =
  node_id :: "'n \<Rightarrow> string"
  getEmbedding :: "'n \<Rightarrow> 'e option"
  nodeToMetadata :: "'n \<Rightarrow> 'm option"
  newPinecone :: bool
  upsert :: "('e, 'm) call list \<Rightarrow> ('e, 'm) pinecone_record list \<Rightarrow> bool"

text \<open>
  The store: whether \<open>this.db\<close> is set, \<open>indexName\<close>, \<open>chunkSize\<close> (an integer,
  or \<open>None\<close> for the NaN that \<open>Number.parseInt\<close> may return) and the calls made so
  far.
\<close>

record ('e, 'm) pinecone_store =
  db :: bool
  indexName :: string
  chunkSize :: "int option"
  calls :: "('e, 'm) call list"

datatype 'a promise = Resolved 'a | RejectedPromise

definition getDb ::
    "('n, 'e, 'm) pinecone_env \<Rightarrow> ('e, 'm) pinecone_store
       \<Rightarrow> ('e, 'm) pinecone_store + ('e, 'm) pinecone_store" where
  "getDb e st =
     (if \<not> db st then
        if newPinecone e then Inr (st\<lparr>db := True, calls := calls st @ [NewPinecone]\<rparr>)
        else Inl (st\<lparr>calls := calls st @ [NewPinecone]\<rparr>)
      else Inr st)"

definition index_of ::
    "('n, 'e, 'm) pinecone_env \<Rightarrow> ('e, 'm) pinecone_store
       \<Rightarrow> ('e, 'm) pinecone_store + ('e, 'm) pinecone_store" where
  "index_of e st =
     (case getDb e st of
        Inl st1 \<Rightarrow> Inl st1
      | Inr st1 \<Rightarrow> Inr (st1\<lparr>calls := calls st1 @ [Index (indexName st1)]\<rparr>))"

definition nodeToRecord :: "('n, 'e, 'm) pinecone_env \<Rightarrow> 'n \<Rightarrow> ('e, 'm) pinecone_record option" where
  "nodeToRecord e node =
     (case getEmbedding e node of
        None \<Rightarrow> None
      | Some v \<Rightarrow>
         (case nodeToMetadata e node of
            None \<Rightarrow> None
          | Some m \<Rightarrow>
              Some \<lparr>record_id = (if length (node_id e node) \<noteq> 0 then Some (node_id e node) else None),
                    record_values = v, record_metadata = m\<rparr>))"

text \<open>\<open>Array.prototype.slice\<close> on integer bounds.\<close>

definition slice :: "'a list \<Rightarrow> int \<Rightarrow> int \<Rightarrow> 'a list" where
  "slice xs start fin =
     take (nat ((if fin < 0 then max (int (length xs) + fin) 0 else min fin (int (length xs)))
                - (if start < 0 then max (int (length xs) + start) 0 else min start (int (length xs)))))
       (drop (nat (if start < 0 then max (int (length xs) + start) 0 else min start (int (length xs)))) xs)"

definition saveChunk ::
    "('n, 'e, 'm) pinecone_env \<Rightarrow> ('e, 'm) pinecone_record list
       \<Rightarrow> ('e, 'm) pinecone_store \<Rightarrow> bool \<times> ('e, 'm) pinecone_store" where
  "saveChunk e chunk st = (upsert e (calls st) chunk, st\<lparr>calls := calls st @ [Upsert chunk]\<rparr>)"

text \<open>
  The loop \<open>for (let i = 0; i < nodes.length; i += this.chunkSize)\<close> for an integer chunk
  size. It need not end (a chunk size of 0 never advances), so not returning is \<open>None\<close>.
\<close>

partial_function (option) saveChunks ::
    "('n, 'e, 'm) pinecone_env \<Rightarrow> ('e, 'm) pinecone_record list \<Rightarrow> int \<Rightarrow> int
       \<Rightarrow> ('e, 'm) pinecone_store \<Rightarrow> (string list promise \<times> ('e, 'm) pinecone_store) option" where
  "saveChunks e nodes c i st =
     (if i < int (length nodes) then
        if fst (saveChunk e (slice nodes i (i + c)) st)
        then saveChunks e nodes c (i + c) (snd (saveChunk e (slice nodes i (i + c)) st))
        else Some (RejectedPromise, snd (saveChunk e (slice nodes i (i + c)) st))
      else Some (Resolved [], st))"

text \<open>
  With a NaN chunk size the first chunk is \<open>slice(0, NaN)\<close>, the empty list, and
  \<open>i\<close> becomes NaN, which ends the loop.
\<close>

definition saveChunksNaN ::
    "('n, 'e, 'm) pinecone_env \<Rightarrow> ('e, 'm) pinecone_record list
       \<Rightarrow> ('e, 'm) pinecone_store \<Rightarrow> (string list promise \<times> ('e, 'm) pinecone_store) option" where
  "saveChunksNaN e nodes st =
     (if 0 < length nodes then
        if fst (saveChunk e [] st) then Some (Resolved [], snd (saveChunk e [] st))
        else Some (RejectedPromise, snd (saveChunk e [] st))
      else Some (Resolved [], st))"

definition add ::
    "('n, 'e, 'm) pinecone_env \<Rightarrow> ('e, 'm) pinecone_store \<Rightarrow> 'n list
       \<Rightarrow> (string list promise \<times> ('e, 'm) pinecone_store) option" where
  "add e st embeddingResults =
     (if length embeddingResults = 0 then Some (Resolved [], st)
      else
        case index_of e st of
          Inl st1 \<Rightarrow> Some (RejectedPromise, st1)
        | Inr st1 \<Rightarrow>
           (case those (map (nodeToRecord e) embeddingResults) of
              None \<Rightarrow> Some (RejectedPromise, st1)
            | Some nodes \<Rightarrow>
               (case chunkSize st1 of
                  Some c \<Rightarrow> saveChunks e nodes c 0 st1
                | None \<Rightarrow> saveChunksNaN e nodes st1)))"

section \<open>Observations and sample inputs\<close>

definition finalProgram :: "state result \<Rightarrow> question_args option" where
  "finalProgram r = (case r of Inl _ \<Rightarrow> None | Inr s \<Rightarrow> Some (program s))"

definition finalPreferences :: "state result \<Rightarrow> question_args option" where
  "finalPreferences r = (case r of Inl _ \<Rightarrow> None | Inr s \<Rightarrow> Some (preferences s))"

definition promptsIssued :: "state result \<Rightarrow> prompt_t list option" where
  "promptsIssued r = (case r of Inl _ \<Rightarrow> None | Inr s \<Rightarrow> Some (map fst (prompted s)))"

definition noArgs :: question_args where
  "noArgs =
    \<lparr>template = None, framework = None, engine = None, ui = None, eslint = None,
     frontend = None, openAiKey = None, llamaCloudKey = None, model = None,
     embeddingModel = None, communityProjectPath = None, llamapack = None, vectorDb = None,
     externalPort = None, postInstallAction = None, dataSource = None, tools = None,
     files = None, llamaParse = None\<rparr>"

definition googleTool :: tool where
  "googleTool = \<lparr>tool_name = ''google.GoogleSearchToolSpec'', tool_display = ''Google Search''\<rparr>"

definition wikipediaTool :: tool where
  "wikipediaTool = \<lparr>tool_name = ''wikipedia.WikipediaToolSpec'', tool_display = ''Wikipedia''\<rparr>"

text \<open>An interactive session on macOS with no keys in the environment.\<close>

definition sampleEnv :: env where
  "sampleEnv =
    \<lparr>isCI = False, platform = Darwin, OPENAI_API_KEY = None, LLAMA_CLOUD_API_KEY = None,
     existsSync = (\<lambda>f. f = ''/data''),
     isDirectory = (\<lambda>f. f = ''/data''),
     vectordbDirs = (\<lambda>l. Some [''mongo'', ''none'', ''pg'', ''pinecone'']),
     getRepoRootFolders = Some [''sec-insights'', ''chat-llamaindex''],
     getAvailableLlamapackOptions = Some [(''Resume Screener'', ''llama_packs/resume_screener'')],
     execSelect = (\<lambda>t. Some ''/docs/report.pdf''),
     extname = (\<lambda>f. if f = ''/docs/report.pdf'' then ''.pdf'' else []),
     urlProtocol = (\<lambda>u. if u = ''https://www.example.com'' then Some ''https:''
                        else if u = ''ftp://x.com'' then Some ''ftp:'' else None),
     supportedTools = [googleTool, wikipediaTool],
     toolsRequireConfig = (\<lambda>ts. case ts of None \<Rightarrow> False | Some l \<Rightarrow> Some googleTool \<in> set l)\<rparr>"

definition sampleOperator :: operator where
  "sampleOperator =
    \<lparr>ans_template = Answer Streaming,
     ans_communityProjectPath = Answer ''sec-insights'',
     ans_llamapack = Answer ''llama_packs/resume_screener'',
     ans_framework = Answer Fastapi,
     ans_frontend = Answer True,
     ans_ui = Answer Shadcn,
     ans_model = Answer ''gpt-4'',
     ans_embeddingModel = Answer ''text-embedding-3-small'',
     ans_dataSource = Answer ChSimple,
     ans_useLlamaParse = Answer False,
     ans_llamaCloudKey = Answer ''llx-1'',
     ans_baseUrl = Answer ''www.example.com'',
     ans_vectorDb = Answer NoneDb,
     ans_toolsName = Answer [''wikipedia.WikipediaToolSpec''],
     ans_key = Answer ''sk-1'',
     ans_eslint = Answer True,
     ans_action = Answer Dependencies\<rparr>"

definition filesInput :: question_args where
  "filesInput =
     noArgs\<lparr>template := Some Streaming, framework := Some Nextjs, ui := Some Html,
       model := Some ''gpt-4'', openAiKey := Some ''sk-1'', eslint := Some True,
       postInstallAction := Some Dependencies, files := Some ''/data''\<rparr>"

definition toolsInput :: question_args where
  "toolsInput =
     noArgs\<lparr>template := Some Streaming, framework := Some Fastapi, engine := Some ContextEngine,
       frontend := Some False, openAiKey := Some ''sk-1'', model := Some ''gpt-4'',
       embeddingModel := Some ''text-embedding-3-small'', vectorDb := Some NoneDb,
       llamaParse := Some False\<rparr>"

definition fullInput :: question_args where
  "fullInput =
    \<lparr>template = Some Simple, framework = Some Express, engine = Some SimpleEngine,
     ui = Some Html, eslint = Some True, frontend = Some True, openAiKey = Some ''sk-1'',
     llamaCloudKey = Some ''llx-1'', model = Some ''gpt-4'',
     embeddingModel = Some ''text-embedding-3-small'', communityProjectPath = Some [],
     llamapack = Some [], vectorDb = Some NoneDb, externalPort = Some 8000,
     postInstallAction = Some Dependencies,
     dataSource = Some \<lparr>ds_type = DsFolder, config = emptyConfig\<lparr>path := Some ''/data''\<rparr>\<rparr>,
     tools = Some [], files = Some ''/data'', llamaParse = Some False\<rparr>"

definition fastapiInput :: question_args where
  "fastapiInput =
     fullInput\<lparr>framework := Some Fastapi, frontend := Some False,
       dataSource := Some \<lparr>ds_type = DsFolder,
           config = emptyConfig\<lparr>path := Some ''/data'', useLlamaParse := Some False\<rparr>\<rparr>\<rparr>"

definition webState :: state where
  "webState =
     initState (noArgs\<lparr>framework := Some Fastapi,
        dataSource := Some \<lparr>ds_type = DsWeb, config = emptyConfig\<rparr>\<rparr>) noArgs"

text \<open>
  A Pinecone store with chunk size 2 and no client yet; nodes are given by their ids, all
  with the same embedding, and every upsert succeeds.
\<close>

definition samplePinecone :: "(string, int list, string) pinecone_env" where
  "samplePinecone =
    \<lparr>node_id = (\<lambda>n. n), getEmbedding = (\<lambda>n. Some [1, 2]), nodeToMetadata = (\<lambda>n. Some n),
     newPinecone = True, upsert = (\<lambda>cs chunk. True)\<rparr>"

definition sampleStore :: "(int list, string) pinecone_store" where
  "sampleStore = \<lparr>db = False, indexName = ''llama'', chunkSize = Some 2, calls = []\<rparr>"

definition sampleRecord :: "string \<Rightarrow> (int list, string) pinecone_record" where
  "sampleRecord n = \<lparr>record_id = Some n, record_values = [1, 2], record_metadata = n\<rparr>"

section \<open>Properties of the question flow\<close>

lemmas prompt_defs = thenDo_def promptHandlers_def promptOnState_def promptPlain_def logPrompt_def

lemmas sample_defs = sampleEnv_def sampleOperator_def noArgs_def initState_def
  googleTool_def wikipediaTool_def

lemmas data_defs = assignDataSource_def writeDataSource_def setEngine_def aliasPrefOrDefault_def
  applyChoice_def selectLocalContextData_def askUseLlamaParse_def askLlamaCloudKey_def

lemmas flow_defs = askQuestions_def afterTemplate_def askRest_def askTemplate_def
  askCommunityProjectPath_def askLlamapack_def askFramework_def askFrontend_def askUi_def
  askModel_def askEmbeddingModel_def useFiles_def askDataSource_def askLlamaParse_def
  askBaseUrl_def askVectorDb_def askTools_def askOpenAiKey_def askEslint_def
  askPostInstallAction_def data_defs prompt_defs getPrefOrDefault_def nullish_def
  defaults_def truthy_def truthyBool_def getDataSourceChoices_def getVectorDbChoices_def
  frameworkChoices_def actionChoices_def hasVectorDb_def openAiKeyConfigured_def
  llamaCloudKeyConfigured_def requestsLlamaParse_def findTools_def emptyConfig_def
  defaultDataSourceInit_def pathIsPdf_def normalizeUrl_def validUrl_def
  supportedContextFileTypes_def invalidUrlExit_def onCancel_def onPromptState_def

lemmas observe_defs = finalProgram_def finalPreferences_def promptsIssued_def

subsection \<open>The choices of the post-install prompt\<close>

lemma runApp_value_iff: "''runApp'' \<in> set (map actionValue cs) \<longleftrightarrow> RunApp \<in> set cs"
proof (induction cs)
  case Nil
  show ?case by simp
next
  case (Cons c cs)
  then show ?case by (cases c) auto
qed

lemma truthy_either_iff:
  "truthy x \<or> truthy y \<longleftrightarrow> (\<exists>k. k \<noteq> [] \<and> (x = Some k \<or> y = Some k))"
  by (auto simp: truthy_def split: option.splits)

lemma not_truthy_iff: "\<not> truthy x \<longleftrightarrow> (x = None \<or> x = Some [])"
  by (auto simp: truthy_def split: option.splits)

lemma not_hasVectorDb_iff: "\<not> hasVectorDb p \<longleftrightarrow> (vectorDb p = None \<or> vectorDb p = Some NoneDb)"
  by (auto simp: hasVectorDb_def split: option.splits)

lemma requestsLlamaParse_iff:
  "requestsLlamaParse p \<longleftrightarrow> (\<exists>d. dataSource p = Some d \<and> useLlamaParse (config d) = Some True)"
  by (auto simp: requestsLlamaParse_def truthyBool_def split: option.splits)

lemma RunApp_in_actionChoices:
  "RunApp \<in> set (actionChoices e p) \<longleftrightarrow>
     \<not> hasVectorDb p \<and> openAiKeyConfigured e p \<and> llamaCloudKeyConfigured e p
     \<and> \<not> toolsRequireConfig e (tools p) \<and> \<not> truthy (llamapack p)"
  by (simp add: actionChoices_def)

lemma askPostInstallAction_interactive:
  assumes "\<not> isCI e" and "postInstallAction (program s) = None" and "ans_action ops = Answer a"
  shows "askPostInstallAction e ops s =
           Inr (s\<lparr>program := (program s)\<lparr>postInstallAction := Some a\<rparr>,
                  prompted := prompted s @ [(PAction, map actionValue (actionChoices e (program s)))]\<rparr>)"
  using assms by (simp add: askPostInstallAction_def prompt_defs)

text \<open>
  C4. When the post-install action is resolved interactively (not under CI, no action
  on the input), the prompt offers "runApp" if and only if: no vector database is
  selected (unset or "none"); an OpenAI key is given by the input or by the environment;
  when the data source asks for LlamaParse, a LlamaCloud key is given by the input or by
  the environment; \<open>toolsRequireConfig\<close> is false for the selected tools; and no
  LlamaPack is chosen.
\<close>

theorem runApp_offered_iff:
  assumes "\<not> isCI e" and "postInstallAction (program s) = None" and "ans_action ops = Answer a"
  shows "\<exists>choices.
           askPostInstallAction e ops s =
             Inr (s\<lparr>program := (program s)\<lparr>postInstallAction := Some a\<rparr>,
                    prompted := prompted s @ [(PAction, choices)]\<rparr>)
         \<and> (''runApp'' \<in> set choices \<longleftrightarrow>
               (vectorDb (program s) = None \<or> vectorDb (program s) = Some NoneDb)
             \<and> (\<exists>k. k \<noteq> [] \<and> (openAiKey (program s) = Some k \<or> OPENAI_API_KEY e = Some k))
             \<and> ((\<exists>d. dataSource (program s) = Some d \<and> useLlamaParse (config d) = Some True) \<longrightarrow>
                  (\<exists>k. k \<noteq> [] \<and> (llamaCloudKey (program s) = Some k \<or> LLAMA_CLOUD_API_KEY e = Some k)))
             \<and> \<not> toolsRequireConfig e (tools (program s))
             \<and> (llamapack (program s) = None \<or> llamapack (program s) = Some []))"
proof -
  have "''runApp'' \<in> set (map actionValue (actionChoices e (program s))) \<longleftrightarrow>
          (vectorDb (program s) = None \<or> vectorDb (program s) = Some NoneDb)
        \<and> (\<exists>k. k \<noteq> [] \<and> (openAiKey (program s) = Some k \<or> OPENAI_API_KEY e = Some k))
        \<and> ((\<exists>d. dataSource (program s) = Some d \<and> useLlamaParse (config d) = Some True) \<longrightarrow>
             (\<exists>k. k \<noteq> [] \<and> (llamaCloudKey (program s) = Some k \<or> LLAMA_CLOUD_API_KEY e = Some k)))
        \<and> \<not> toolsRequireConfig e (tools (program s))
        \<and> (llamapack (program s) = None \<or> llamapack (program s) = Some [])"
    unfolding runApp_value_iff RunApp_in_actionChoices not_hasVectorDb_iff not_truthy_iff
      openAiKeyConfigured_def llamaCloudKeyConfigured_def truthy_either_iff
      requestsLlamaParse_iff
    by auto
  with askPostInstallAction_interactive [OF assms] show ?thesis by blast
qed

theorem runApp_offered_iff_witness:
  "\<not> isCI sampleEnv
   \<and> postInstallAction (program (initState (noArgs\<lparr>openAiKey := Some ''sk-1''\<rparr>) noArgs)) = None
   \<and> ans_action sampleOperator = Answer Dependencies
   \<and> (\<exists>choices.
        askPostInstallAction sampleEnv sampleOperator
            (initState (noArgs\<lparr>openAiKey := Some ''sk-1''\<rparr>) noArgs) =
          Inr ((initState (noArgs\<lparr>openAiKey := Some ''sk-1''\<rparr>) noArgs)
                 \<lparr>program := noArgs\<lparr>openAiKey := Some ''sk-1'', postInstallAction := Some Dependencies\<rparr>,
                  prompted := [(PAction, choices)]\<rparr>)
        \<and> ''runApp'' \<in> set choices)"
proof -
  have h1: "\<not> isCI sampleEnv" by (simp add: sample_defs)
  have h2: "postInstallAction (program (initState (noArgs\<lparr>openAiKey := Some ''sk-1''\<rparr>) noArgs)) = None"
    by (simp add: sample_defs)
  have h3: "ans_action sampleOperator = Answer Dependencies" by (simp add: sample_defs)
  show ?thesis
    using runApp_offered_iff [OF h1 h2 h3] h1 h2 h3 by (simp add: sample_defs)
qed

subsection \<open>What each step changes\<close>

text \<open>
  For every step: the fields it may change (the frame), and the value it gives its
  field, under CI and at a prompt.
\<close>

lemma askTemplate_frame:
  assumes "askTemplate e ops s = Inr s'"
  shows "\<exists>v w l. program s' = (program s)\<lparr>template := v\<rparr>
           \<and> preferences s' = (preferences s)\<lparr>template := w\<rparr>
           \<and> prompted s' = prompted s @ l \<and> fst ` set l \<subseteq> {PTemplate}"
proof -
  have "program s' = (program s)\<lparr>template := template (program s')\<rparr>
        \<and> preferences s' = (preferences s)\<lparr>template := template (preferences s')\<rparr>
        \<and> prompted s' = prompted s @ drop (length (prompted s)) (prompted s')
        \<and> fst ` set (drop (length (prompted s)) (prompted s')) \<subseteq> {PTemplate}"
    using assms
    by (auto simp: askTemplate_def prompt_defs split: if_splits response.splits option.splits)
  then show ?thesis by (intro exI) assumption
qed

lemma askTemplate_value:
  assumes "askTemplate e ops s = Inr s'"
  shows "((isCI e \<or> \<not> (template (program s) = None)) \<and> prompted s' = prompted s
            \<and> preferences s' = preferences s
            \<and> template (program s') =
                (if template (program s) = None then getPrefOrDefault template s else template (program s)))
         \<or> (\<not> isCI e \<and> (template (program s) = None) \<and> (\<exists>a c. prompted s' = prompted s @ [(PTemplate, c)]
              \<and> ans_template ops = Answer a
              \<and> template (program s') = Some a \<and> template (preferences s') = Some a))"
  using assms
  by (auto simp: askTemplate_def prompt_defs getPrefOrDefault_def split: if_splits response.splits option.splits)

lemma askFramework_frame:
  assumes "askFramework e ops s = Inr s'"
  shows "\<exists>v w l. program s' = (program s)\<lparr>framework := v\<rparr>
           \<and> preferences s' = (preferences s)\<lparr>framework := w\<rparr>
           \<and> prompted s' = prompted s @ l \<and> fst ` set l \<subseteq> {PFramework}"
proof -
  have "program s' = (program s)\<lparr>framework := framework (program s')\<rparr>
        \<and> preferences s' = (preferences s)\<lparr>framework := framework (preferences s')\<rparr>
        \<and> prompted s' = prompted s @ drop (length (prompted s)) (prompted s')
        \<and> fst ` set (drop (length (prompted s)) (prompted s')) \<subseteq> {PFramework}"
    using assms
    by (auto simp: askFramework_def prompt_defs split: if_splits response.splits option.splits)
  then show ?thesis by (intro exI) assumption
qed

lemma askFramework_value:
  assumes "askFramework e ops s = Inr s'"
  shows "((isCI e \<or> \<not> (framework (program s) = None)) \<and> prompted s' = prompted s
            \<and> preferences s' = preferences s
            \<and> framework (program s') =
                (if framework (program s) = None then getPrefOrDefault framework s else framework (program s)))
         \<or> (\<not> isCI e \<and> (framework (program s) = None) \<and> (\<exists>a c. prompted s' = prompted s @ [(PFramework, c)]
              \<and> ans_framework ops = Answer a
              \<and> framework (program s') = Some a \<and> framework (preferences s') = Some a))"
  using assms
  by (auto simp: askFramework_def prompt_defs getPrefOrDefault_def split: if_splits response.splits option.splits)

lemma askUi_frame:
  assumes "askUi e ops s = Inr s'"
  shows "\<exists>v w l. program s' = (program s)\<lparr>ui := v\<rparr>
           \<and> preferences s' = (preferences s)\<lparr>ui := w\<rparr>
           \<and> prompted s' = prompted s @ l \<and> fst ` set l \<subseteq> {PUi}"
proof -
  have "program s' = (program s)\<lparr>ui := ui (program s')\<rparr>
        \<and> preferences s' = (preferences s)\<lparr>ui := ui (preferences s')\<rparr>
        \<and> prompted s' = prompted s @ drop (length (prompted s)) (prompted s')
        \<and> fst ` set (drop (length (prompted s)) (prompted s')) \<subseteq> {PUi}"
    using assms
    by (auto simp: askUi_def prompt_defs split: if_splits response.splits option.splits)
  then show ?thesis by (intro exI) assumption
qed

lemma askUi_value:
  assumes "askUi e ops s = Inr s'"
  shows "((isCI e \<or> \<not> ((framework (program s) = Some Nextjs \<or> truthyBool (frontend (program s))) \<and> ui (program s) = None)) \<and> prompted s' = prompted s
            \<and> preferences s' = preferences s
            \<and> ui (program s') =
                (if (framework (program s) = Some Nextjs \<or> truthyBool (frontend (program s))) \<and> ui (program s) = None then getPrefOrDefault ui s else ui (program s)))
         \<or> (\<not> isCI e \<and> ((framework (program s) = Some Nextjs \<or> truthyBool (frontend (program s))) \<and> ui (program s) = None) \<and> (\<exists>a c. prompted s' = prompted s @ [(PUi, c)]
              \<and> ans_ui ops = Answer a
              \<and> ui (program s') = Some a \<and> ui (preferences s') = Some a))"
  using assms
  by (auto simp: askUi_def prompt_defs getPrefOrDefault_def split: if_splits response.splits option.splits)

lemma askModel_frame:
  assumes "askModel e ops s = Inr s'"
  shows "\<exists>v w l. program s' = (program s)\<lparr>model := v\<rparr>
           \<and> preferences s' = (preferences s)\<lparr>model := w\<rparr>
           \<and> prompted s' = prompted s @ l \<and> fst ` set l \<subseteq> {PModel}"
proof -
  have "program s' = (program s)\<lparr>model := model (program s')\<rparr>
        \<and> preferences s' = (preferences s)\<lparr>model := model (preferences s')\<rparr>
        \<and> prompted s' = prompted s @ drop (length (prompted s)) (prompted s')
        \<and> fst ` set (drop (length (prompted s)) (prompted s')) \<subseteq> {PModel}"
    using assms
    by (auto simp: askModel_def prompt_defs split: if_splits response.splits option.splits)
  then show ?thesis by (intro exI) assumption
qed

lemma askModel_value:
  assumes "askModel e ops s = Inr s'"
  shows "((isCI e \<or> \<not> (\<not> truthy (model (program s)))) \<and> prompted s' = prompted s
            \<and> preferences s' = preferences s
            \<and> model (program s') =
                (if \<not> truthy (model (program s)) then getPrefOrDefault model s else model (program s)))
         \<or> (\<not> isCI e \<and> (\<not> truthy (model (program s))) \<and> (\<exists>a c. prompted s' = prompted s @ [(PModel, c)]
              \<and> ans_model ops = Answer a
              \<and> model (program s') = Some a \<and> model (preferences s') = Some a))"
  using assms
  by (auto simp: askModel_def prompt_defs getPrefOrDefault_def split: if_splits response.splits option.splits)

lemma askEmbeddingModel_frame:
  assumes "askEmbeddingModel e ops s = Inr s'"
  shows "\<exists>v w l. program s' = (program s)\<lparr>embeddingModel := v\<rparr>
           \<and> preferences s' = (preferences s)\<lparr>embeddingModel := w\<rparr>
           \<and> prompted s' = prompted s @ l \<and> fst ` set l \<subseteq> {PEmbeddingModel}"
proof -
  have "program s' = (program s)\<lparr>embeddingModel := embeddingModel (program s')\<rparr>
        \<and> preferences s' = (preferences s)\<lparr>embeddingModel := embeddingModel (preferences s')\<rparr>
        \<and> prompted s' = prompted s @ drop (length (prompted s)) (prompted s')
        \<and> fst ` set (drop (length (prompted s)) (prompted s')) \<subseteq> {PEmbeddingModel}"
    using assms
    by (auto simp: askEmbeddingModel_def prompt_defs split: if_splits response.splits option.splits)
  then show ?thesis by (intro exI) assumption
qed

lemma askEmbeddingModel_value:
  assumes "askEmbeddingModel e ops s = Inr s'"
  shows "((isCI e \<or> \<not> (\<not> truthy (embeddingModel (program s)) \<and> framework (program s) = Some Fastapi)) \<and> prompted s' = prompted s
            \<and> preferences s' = preferences s
            \<and> embeddingModel (program s') =
                (if \<not> truthy (embeddingModel (program s)) \<and> framework (program s) = Some Fastapi then getPrefOrDefault embeddingModel s else embeddingModel (program s)))
         \<or> (\<not> isCI e \<and> (\<not> truthy (embeddingModel (program s)) \<and> framework (program s) = Some Fastapi) \<and> (\<exists>a c. prompted s' = prompted s @ [(PEmbeddingModel, c)]
              \<and> ans_embeddingModel ops = Answer a
              \<and> embeddingModel (program s') = Some a \<and> embeddingModel (preferences s') = Some a))"
  using assms
  by (auto simp: askEmbeddingModel_def prompt_defs getPrefOrDefault_def split: if_splits response.splits option.splits)

lemma askVectorDb_frame:
  assumes "askVectorDb e ops s = Inr s'"
  shows "\<exists>v w l. program s' = (program s)\<lparr>vectorDb := v\<rparr>
           \<and> preferences s' = (preferences s)\<lparr>vectorDb := w\<rparr>
           \<and> prompted s' = prompted s @ l \<and> fst ` set l \<subseteq> {PVectorDb}"
proof -
  have "program s' = (program s)\<lparr>vectorDb := vectorDb (program s')\<rparr>
        \<and> preferences s' = (preferences s)\<lparr>vectorDb := vectorDb (preferences s')\<rparr>
        \<and> prompted s' = prompted s @ drop (length (prompted s)) (prompted s')
        \<and> fst ` set (drop (length (prompted s)) (prompted s')) \<subseteq> {PVectorDb}"
    using assms
    by (auto simp: askVectorDb_def prompt_defs split: if_splits response.splits option.splits)
  then show ?thesis by (intro exI) assumption
qed

lemma askVectorDb_value:
  assumes "askVectorDb e ops s = Inr s'"
  shows "((isCI e \<or> \<not> (engine (program s) \<noteq> Some SimpleEngine \<and> vectorDb (program s) = None)) \<and> prompted s' = prompted s
            \<and> preferences s' = preferences s
            \<and> vectorDb (program s') =
                (if engine (program s) \<noteq> Some SimpleEngine \<and> vectorDb (program s) = None then getPrefOrDefault vectorDb s else vectorDb (program s)))
         \<or> (\<not> isCI e \<and> (engine (program s) \<noteq> Some SimpleEngine \<and> vectorDb (program s) = None) \<and> (\<exists>a c. prompted s' = prompted s @ [(PVectorDb, c)]
              \<and> ans_vectorDb ops = Answer a
              \<and> vectorDb (program s') = Some a \<and> vectorDb (preferences s') = Some a))"
  using assms
  by (auto simp: askVectorDb_def prompt_defs getPrefOrDefault_def split: if_splits response.splits option.splits)

lemma askEslint_frame:
  assumes "askEslint e ops s = Inr s'"
  shows "\<exists>v w l. program s' = (program s)\<lparr>eslint := v\<rparr>
           \<and> preferences s' = (preferences s)\<lparr>eslint := w\<rparr>
           \<and> prompted s' = prompted s @ l \<and> fst ` set l \<subseteq> {PEslint}"
proof -
  have "program s' = (program s)\<lparr>eslint := eslint (program s')\<rparr>
        \<and> preferences s' = (preferences s)\<lparr>eslint := eslint (preferences s')\<rparr>
        \<and> prompted s' = prompted s @ drop (length (prompted s)) (prompted s')
        \<and> fst ` set (drop (length (prompted s)) (prompted s')) \<subseteq> {PEslint}"
    using assms
    by (auto simp: askEslint_def prompt_defs split: if_splits response.splits option.splits)
  then show ?thesis by (intro exI) assumption
qed

lemma askEslint_value:
  assumes "askEslint e ops s = Inr s'"
  shows "((isCI e \<or> \<not> (framework (program s) \<noteq> Some Fastapi \<and> eslint (program s) = None)) \<and> prompted s' = prompted s
            \<and> preferences s' = preferences s
            \<and> eslint (program s') =
                (if framework (program s) \<noteq> Some Fastapi \<and> eslint (program s) = None then getPrefOrDefault eslint s else eslint (program s)))
         \<or> (\<not> isCI e \<and> (framework (program s) \<noteq> Some Fastapi \<and> eslint (program s) = None) \<and> (\<exists>a c. prompted s' = prompted s @ [(PEslint, c)]
              \<and> ans_eslint ops = Answer a
              \<and> eslint (program s') = Some a \<and> eslint (preferences s') = Some a))"
  using assms
  by (auto simp: askEslint_def prompt_defs getPrefOrDefault_def split: if_splits response.splits option.splits)

lemma askFrontend_frame:
  assumes "askFrontend e ops s = Inr s'"
  shows "\<exists>v w l. program s' = (program s)\<lparr>frontend := v\<rparr>
           \<and> preferences s' = (preferences s)\<lparr>frontend := w\<rparr>
           \<and> prompted s' = prompted s @ l \<and> fst ` set l \<subseteq> {PFrontend}"
proof -
  have "program s' = (program s)\<lparr>frontend := frontend (program s')\<rparr>
        \<and> preferences s' = (preferences s)\<lparr>frontend := frontend (preferences s')\<rparr>
        \<and> prompted s' = prompted s @ drop (length (prompted s)) (prompted s')
        \<and> fst ` set (drop (length (prompted s)) (prompted s')) \<subseteq> {PFrontend}"
    using assms
    by (auto simp: askFrontend_def prompt_defs split: if_splits response.splits option.splits)
  then show ?thesis by (intro exI) assumption
qed

lemma askTools_frame:
  assumes "askTools e ops s = Inr s'"
  shows "\<exists>v w l. program s' = (program s)\<lparr>tools := v\<rparr>
           \<and> preferences s' = (preferences s)\<lparr>tools := w\<rparr>
           \<and> prompted s' = prompted s @ l \<and> fst ` set l \<subseteq> {PToolsName}"
proof -
  have "program s' = (program s)\<lparr>tools := tools (program s')\<rparr>
        \<and> preferences s' = (preferences s)\<lparr>tools := tools (preferences s')\<rparr>
        \<and> prompted s' = prompted s @ drop (length (prompted s)) (prompted s')
        \<and> fst ` set (drop (length (prompted s)) (prompted s')) \<subseteq> {PToolsName}"
    using assms
    by (auto simp: askTools_def prompt_defs split: if_splits response.splits option.splits)
  then show ?thesis by (intro exI) assumption
qed

lemma askOpenAiKey_frame:
  assumes "askOpenAiKey e ops s = Inr s'"
  shows "\<exists>v w l. program s' = (program s)\<lparr>openAiKey := v\<rparr>
           \<and> preferences s' = (preferences s)\<lparr>openAiKey := w\<rparr>
           \<and> prompted s' = prompted s @ l \<and> fst ` set l \<subseteq> {PKey}"
proof -
  have "program s' = (program s)\<lparr>openAiKey := openAiKey (program s')\<rparr>
        \<and> preferences s' = (preferences s)\<lparr>openAiKey := openAiKey (preferences s')\<rparr>
        \<and> prompted s' = prompted s @ drop (length (prompted s)) (prompted s')
        \<and> fst ` set (drop (length (prompted s)) (prompted s')) \<subseteq> {PKey}"
    using assms
    by (auto simp: askOpenAiKey_def prompt_defs split: if_splits response.splits option.splits)
  then show ?thesis by (intro exI) assumption
qed

lemma askPostInstallAction_frame:
  assumes "askPostInstallAction e ops s = Inr s'"
  shows "\<exists>v w l. program s' = (program s)\<lparr>postInstallAction := v\<rparr>
           \<and> preferences s' = (preferences s)\<lparr>postInstallAction := w\<rparr>
           \<and> prompted s' = prompted s @ l \<and> fst ` set l \<subseteq> {PAction}"
proof -
  have "program s' = (program s)\<lparr>postInstallAction := postInstallAction (program s')\<rparr>
        \<and> preferences s' = (preferences s)\<lparr>postInstallAction := postInstallAction (preferences s')\<rparr>
        \<and> prompted s' = prompted s @ drop (length (prompted s)) (prompted s')
        \<and> fst ` set (drop (length (prompted s)) (prompted s')) \<subseteq> {PAction}"
    using assms
    by (auto simp: askPostInstallAction_def prompt_defs split: if_splits response.splits option.splits)
  then show ?thesis by (intro exI) assumption
qed

lemma askFrontend_value:
  assumes "askFrontend e ops s = Inr s'"
  shows "((isCI e \<or> \<not> (template (program s) = Some Streaming
                \<and> (framework (program s) = Some Express \<or> framework (program s) = Some Fastapi)
                \<and> frontend (program s) = None))
            \<and> prompted s' = prompted s \<and> preferences s' = preferences s
            \<and> frontend (program s') =
                (if template (program s) = Some Streaming
                     \<and> (framework (program s) = Some Express \<or> framework (program s) = Some Fastapi)
                 then (if frontend (program s) = None then getPrefOrDefault frontend s
                       else frontend (program s))
                 else Some False))
         \<or> (\<not> isCI e \<and> template (program s) = Some Streaming
              \<and> (framework (program s) = Some Express \<or> framework (program s) = Some Fastapi)
              \<and> frontend (program s) = None
              \<and> (\<exists>a c. prompted s' = prompted s @ [(PFrontend, c)]
                    \<and> ans_frontend ops = Answer a
                    \<and> frontend (program s') = Some a \<and> frontend (preferences s') = Some a))"
  using assms
  by (auto simp: askFrontend_def prompt_defs getPrefOrDefault_def split: if_splits response.splits)

lemma askTools_value:
  assumes "askTools e ops s = Inr s'"
  shows "((isCI e \<or> \<not> (tools (program s) = None \<and> framework (program s) = Some Fastapi
                \<and> engine (program s) = Some ContextEngine))
            \<and> prompted s' = prompted s \<and> preferences s' = preferences s
            \<and> tools (program s') =
                (if tools (program s) = None \<and> framework (program s) = Some Fastapi
                     \<and> engine (program s) = Some ContextEngine
                 then getPrefOrDefault tools s else tools (program s)))
         \<or> (\<not> isCI e \<and> tools (program s) = None \<and> framework (program s) = Some Fastapi
              \<and> engine (program s) = Some ContextEngine
              \<and> (\<exists>c. prompted s' = prompted s @ [(PToolsName, c)])
              \<and> tools (program s') =
                   findTools e (case ans_toolsName ops of Abort \<Rightarrow> None | Answer a \<Rightarrow> Some a)
              \<and> tools (preferences s') =
                   findTools e (case ans_toolsName ops of Abort \<Rightarrow> None | Answer a \<Rightarrow> Some a))"
  using assms
  by (auto simp: askTools_def prompt_defs getPrefOrDefault_def split: if_splits response.splits)

lemma askOpenAiKey_value:
  assumes "askOpenAiKey e ops s = Inr s'"
  shows "(truthy (openAiKey (program s)) \<and> prompted s' = prompted s
            \<and> preferences s' = preferences s
            \<and> openAiKey (program s') = openAiKey (program s))
         \<or> (\<not> truthy (openAiKey (program s))
              \<and> (\<exists>a c. prompted s' = prompted s @ [(PKey, c)]
                    \<and> ans_key ops = Answer a
                    \<and> openAiKey (program s') = Some a \<and> openAiKey (preferences s') = Some a))"
  using assms
  by (auto simp: askOpenAiKey_def prompt_defs split: if_splits response.splits)


lemma askCommunityProjectPath_value:
  assumes "askCommunityProjectPath e ops s = Inr s'"
  shows "\<exists>a c. getRepoRootFolders e = Some c
           \<and> ans_communityProjectPath ops = Answer a
           \<and> s' = s\<lparr>program := (program s)\<lparr>communityProjectPath := Some a\<rparr>,
                     preferences := (preferences s)\<lparr>communityProjectPath := Some a\<rparr>,
                     prompted := prompted s @ [(PCommunityProjectPath, c)]\<rparr>"
  using assms
  by (auto simp: askCommunityProjectPath_def prompt_defs split: option.splits response.splits)

lemma askLlamapack_value:
  assumes "askLlamapack e ops s = Inr s'"
  shows "\<exists>a c. getAvailableLlamapackOptions e = Some c
           \<and> ans_llamapack ops = Answer a
           \<and> s' = s\<lparr>program := (program s)\<lparr>llamapack := Some a\<rparr>,
                     preferences := (preferences s)\<lparr>llamapack := Some a\<rparr>,
                     prompted := prompted s @ [(PLlamapack, map snd c)]\<rparr>"
  using assms
  by (auto simp: askLlamapack_def prompt_defs split: option.splits response.splits)

lemma useFiles_frame:
  assumes "useFiles e s = Inr s'"
  shows "\<exists>d. program s' = (program s)\<lparr>dataSource := d\<rparr>
           \<and> preferences s' = preferences s \<and> prompted s' = prompted s"
proof -
  have "program s' = (program s)\<lparr>dataSource := dataSource (program s')\<rparr>
        \<and> preferences s' = preferences s \<and> prompted s' = prompted s"
    using assms
    by (auto simp: useFiles_def data_defs split: if_splits option.splits)
  then show ?thesis by (intro exI) assumption
qed

lemma askDataSource_frame:
  assumes "askDataSource e ops s = Inr s'"
  shows "\<exists>g d pd l.
           program s' = (program s)\<lparr>engine := g, dataSource := d\<rparr>
           \<and> preferences s' = (preferences s)\<lparr>dataSource := pd\<rparr>
           \<and> prompted s' = prompted s @ l \<and> fst ` set l \<subseteq> {PDataSource}"
proof -
  have "program s' = (program s)\<lparr>engine := engine (program s'),
                                     dataSource := dataSource (program s')\<rparr>
        \<and> preferences s' = (preferences s)\<lparr>dataSource := dataSource (preferences s')\<rparr>
        \<and> prompted s' = prompted s @ drop (length (prompted s)) (prompted s')
        \<and> fst ` set (drop (length (prompted s)) (prompted s')) \<subseteq> {PDataSource}"
    using assms
    by (auto simp: askDataSource_def data_defs prompt_defs
        split: if_splits option.splits response.splits choice_t.splits engine_t.splits ds_ref.splits)
  then show ?thesis by (intro exI) assumption
qed


lemma writeDataSource_frame:
  "\<exists>pd dd. writeDataSource d s =
     s\<lparr>program := (program s)\<lparr>dataSource := Some d\<rparr>,
       preferences := (preferences s)\<lparr>dataSource := pd\<rparr>, defaultDataSource := dd\<rparr>"
proof (cases "dsRef s")
  case Own
  then have "writeDataSource d s =
     s\<lparr>program := (program s)\<lparr>dataSource := Some d\<rparr>,
       preferences := (preferences s)\<lparr>dataSource := dataSource (preferences s)\<rparr>,
       defaultDataSource := defaultDataSource s\<rparr>"
    by (simp add: writeDataSource_def)
  then show ?thesis by (intro exI) assumption
next
  case RefPreferences
  then have "writeDataSource d s =
     s\<lparr>program := (program s)\<lparr>dataSource := Some d\<rparr>,
       preferences := (preferences s)\<lparr>dataSource := Some d\<rparr>,
       defaultDataSource := defaultDataSource s\<rparr>"
    by (simp add: writeDataSource_def)
  then show ?thesis by (intro exI) assumption
next
  case RefDefaults
  then have "writeDataSource d s =
     s\<lparr>program := (program s)\<lparr>dataSource := Some d\<rparr>,
       preferences := (preferences s)\<lparr>dataSource := dataSource (preferences s)\<rparr>,
       defaultDataSource := d\<rparr>"
    by (simp add: writeDataSource_def)
  then show ?thesis by (intro exI) assumption
qed

lemma askUseLlamaParse_frame:
  assumes "askUseLlamaParse ops d s = Inr (d', s')"
  shows "\<exists>pd dd l.
           s' = s\<lparr>program := (program s)\<lparr>dataSource := Some d'\<rparr>,
                   preferences := (preferences s)\<lparr>dataSource := pd\<rparr>,
                   defaultDataSource := dd, prompted := prompted s @ l\<rparr>
           \<and> fst ` set l \<subseteq> {PUseLlamaParse}"
proof -
  from assms obtain u where d': "d' = d\<lparr>config := (config d)\<lparr>useLlamaParse := Some u\<rparr>\<rparr>"
    and s': "s' = writeDataSource d' (s\<lparr>prompted := prompted s @ [(PUseLlamaParse, [])]\<rparr>)"
    by (auto simp: askUseLlamaParse_def prompt_defs split: response.splits)
  from writeDataSource_frame [of d' "s\<lparr>prompted := prompted s @ [(PUseLlamaParse, [])]\<rparr>"]
  obtain pd dd where
    w: "writeDataSource d' (s\<lparr>prompted := prompted s @ [(PUseLlamaParse, [])]\<rparr>) =
          (s\<lparr>prompted := prompted s @ [(PUseLlamaParse, [])]\<rparr>)
            \<lparr>program := (program (s\<lparr>prompted := prompted s @ [(PUseLlamaParse, [])]\<rparr>))
                          \<lparr>dataSource := Some d'\<rparr>,
             preferences := (preferences (s\<lparr>prompted := prompted s @ [(PUseLlamaParse, [])]\<rparr>))
                          \<lparr>dataSource := pd\<rparr>,
             defaultDataSource := dd\<rparr>"
    by blast
  have "s' = s\<lparr>program := (program s)\<lparr>dataSource := Some d'\<rparr>,
               preferences := (preferences s)\<lparr>dataSource := pd\<rparr>,
               defaultDataSource := dd, prompted := prompted s @ [(PUseLlamaParse, [])]\<rparr>
        \<and> fst ` set [(PUseLlamaParse, [] :: string list)] \<subseteq> {PUseLlamaParse}"
    unfolding s' w by simp
  then show ?thesis by (intro exI) assumption
qed

lemma askLlamaCloudKey_frame:
  assumes "askLlamaCloudKey ops d s = Inr s'"
  shows "\<exists>k l. s' = s\<lparr>program := (program s)\<lparr>llamaCloudKey := k\<rparr>, prompted := prompted s @ l\<rparr>
           \<and> fst ` set l \<subseteq> {PLlamaCloudKey}"
proof -
  have "s' = s\<lparr>program := (program s)\<lparr>llamaCloudKey := llamaCloudKey (program s')\<rparr>,
               prompted := prompted s @ drop (length (prompted s)) (prompted s')\<rparr>
        \<and> fst ` set (drop (length (prompted s)) (prompted s')) \<subseteq> {PLlamaCloudKey}"
    using assms
    by (auto simp: askLlamaCloudKey_def prompt_defs split: if_splits response.splits)
  then show ?thesis by (intro exI) assumption
qed

lemma askLlamaParse_state:
  assumes "askLlamaParse e ops s = Inr s'"
  shows "\<exists>k d pd dd l.
           s' = s\<lparr>program := (program s)\<lparr>llamaCloudKey := k, dataSource := d\<rparr>,
                   preferences := (preferences s)\<lparr>dataSource := pd\<rparr>,
                   defaultDataSource := dd, prompted := prompted s @ l\<rparr>
           \<and> fst ` set l \<subseteq> {PUseLlamaParse, PLlamaCloudKey}"
proof -
  have unchanged: ?thesis if "s' = s"
  proof -
    have "s' = s\<lparr>program := (program s)\<lparr>llamaCloudKey := llamaCloudKey (program s),
                                          dataSource := dataSource (program s)\<rparr>,
                 preferences := (preferences s)\<lparr>dataSource := dataSource (preferences s)\<rparr>,
                 defaultDataSource := defaultDataSource s, prompted := prompted s @ []\<rparr>"
      using that by simp
    then show ?thesis by (intro exI) (rule conjI, assumption, simp)
  qed
  show ?thesis
  proof (cases "dataSource (program s)")
    case None
    with assms show ?thesis by (intro unchanged) (simp add: askLlamaParse_def)
  next
    case (Some d)
    show ?thesis
    proof (cases "(ds_type d = DsFile \<or> ds_type d = DsFolder) \<and> framework (program s) = Some Fastapi")
      case False
      with assms Some show ?thesis by (intro unchanged) (auto simp: askLlamaParse_def)
    next
      case applies: True
      show ?thesis
      proof (cases "isCI e")
        case True
        with assms Some applies have
          "s' = s\<lparr>program := (program s)\<lparr>llamaCloudKey := getPrefOrDefault llamaCloudKey s,
                                            dataSource := dataSource (program s)\<rparr>,
                   preferences := (preferences s)\<lparr>dataSource := dataSource (preferences s)\<rparr>,
                   defaultDataSource := defaultDataSource s, prompted := prompted s @ []\<rparr>"
          by (auto simp: askLlamaParse_def)
        then show ?thesis by (intro exI) (rule conjI, assumption, simp)
      next
        case False
        define d0 where "d0 = d\<lparr>config := (config d)\<lparr>useLlamaParse := llamaParse (program s)\<rparr>\<rparr>"
        from writeDataSource_frame [of d0 s] obtain pd0 dd0 where
          w0: "writeDataSource d0 s =
                 s\<lparr>program := (program s)\<lparr>dataSource := Some d0\<rparr>,
                   preferences := (preferences s)\<lparr>dataSource := pd0\<rparr>, defaultDataSource := dd0\<rparr>"
          by blast
        define asking where
          "asking \<longleftrightarrow> llamaParse (program s) = None
                      \<and> (if ds_type d = DsFolder then True else pathIsPdf e (config d))"
        from assms Some applies False obtain d1 s1 where
          first: "(if asking then askUseLlamaParse ops d0 (writeDataSource d0 s)
                   else Inr (d0, writeDataSource d0 s)) = Inr (d1, s1)"
          and second: "askLlamaCloudKey ops d1 s1 = Inr s'"
          unfolding askLlamaParse_def d0_def asking_def
          by (simp add: thenDo_def split: sum.splits prod.splits)
        have "\<exists>pd dd l.
                s1 = s\<lparr>program := (program s)\<lparr>dataSource := Some d1\<rparr>,
                        preferences := (preferences s)\<lparr>dataSource := pd\<rparr>,
                        defaultDataSource := dd, prompted := prompted s @ l\<rparr>
                \<and> fst ` set l \<subseteq> {PUseLlamaParse}"
        proof (cases asking)
          case True
          with first have "askUseLlamaParse ops d0 (writeDataSource d0 s) = Inr (d1, s1)" by simp
          from askUseLlamaParse_frame [OF this] obtain pd dd l where
            "s1 = (writeDataSource d0 s)\<lparr>program := (program (writeDataSource d0 s))\<lparr>dataSource := Some d1\<rparr>,
                    preferences := (preferences (writeDataSource d0 s))\<lparr>dataSource := pd\<rparr>,
                    defaultDataSource := dd, prompted := prompted (writeDataSource d0 s) @ l\<rparr>"
            and "fst ` set l \<subseteq> {PUseLlamaParse}"
            by blast
          then have
            "s1 = s\<lparr>program := (program s)\<lparr>dataSource := Some d1\<rparr>,
                    preferences := (preferences s)\<lparr>dataSource := pd\<rparr>,
                    defaultDataSource := dd, prompted := prompted s @ l\<rparr>
             \<and> fst ` set l \<subseteq> {PUseLlamaParse}"
            by (simp add: w0)
          then show ?thesis by (intro exI) assumption
        next
          case False
          with first have "d1 = d0" and "s1 = writeDataSource d0 s" by auto
          then have
            "s1 = s\<lparr>program := (program s)\<lparr>dataSource := Some d1\<rparr>,
                    preferences := (preferences s)\<lparr>dataSource := pd0\<rparr>,
                    defaultDataSource := dd0, prompted := prompted s @ []\<rparr>
             \<and> fst ` set ([] :: (prompt_t \<times> string list) list) \<subseteq> {PUseLlamaParse}"
            by (simp add: w0)
          then show ?thesis by (intro exI) assumption
        qed
        then obtain pd dd l where
          s1: "s1 = s\<lparr>program := (program s)\<lparr>dataSource := Some d1\<rparr>,
                      preferences := (preferences s)\<lparr>dataSource := pd\<rparr>,
                      defaultDataSource := dd, prompted := prompted s @ l\<rparr>"
          and l: "fst ` set l \<subseteq> {PUseLlamaParse}"
          by blast
        from askLlamaCloudKey_frame [OF second] obtain k l' where
          s': "s' = s1\<lparr>program := (program s1)\<lparr>llamaCloudKey := k\<rparr>, prompted := prompted s1 @ l'\<rparr>"
          and l': "fst ` set l' \<subseteq> {PLlamaCloudKey}"
          by blast
        have "s' = s\<lparr>program := (program s)\<lparr>llamaCloudKey := k, dataSource := Some d1\<rparr>,
                     preferences := (preferences s)\<lparr>dataSource := pd\<rparr>,
                     defaultDataSource := dd, prompted := prompted s @ (l @ l')\<rparr>
              \<and> fst ` set (l @ l') \<subseteq> {PUseLlamaParse, PLlamaCloudKey}"
          using l l' by (auto simp: s' s1)
        then show ?thesis by (intro exI) assumption
      qed
    qed
  qed
qed

lemma askLlamaParse_frame:
  assumes "askLlamaParse e ops s = Inr s'"
  shows "\<exists>k d pd l.
           program s' = (program s)\<lparr>llamaCloudKey := k, dataSource := d\<rparr>
           \<and> preferences s' = (preferences s)\<lparr>dataSource := pd\<rparr>
           \<and> prompted s' = prompted s @ l
           \<and> fst ` set l \<subseteq> {PUseLlamaParse, PLlamaCloudKey}"
proof -
  from askLlamaParse_state [OF assms] obtain k d pd dd l where
    s': "s' = s\<lparr>program := (program s)\<lparr>llamaCloudKey := k, dataSource := d\<rparr>,
                preferences := (preferences s)\<lparr>dataSource := pd\<rparr>,
                defaultDataSource := dd, prompted := prompted s @ l\<rparr>"
    and l: "fst ` set l \<subseteq> {PUseLlamaParse, PLlamaCloudKey}"
    by blast
  have "program s' = (program s)\<lparr>llamaCloudKey := k, dataSource := d\<rparr>
        \<and> preferences s' = (preferences s)\<lparr>dataSource := pd\<rparr>
        \<and> prompted s' = prompted s @ l
        \<and> fst ` set l \<subseteq> {PUseLlamaParse, PLlamaCloudKey}"
    using l by (simp add: s')
  then show ?thesis by (intro exI) assumption
qed


lemma askBaseUrl_frame:
  assumes "askBaseUrl e ops s = Inr s'"
  shows "\<exists>d pd l.
           program s' = (program s)\<lparr>dataSource := d\<rparr>
           \<and> preferences s' = (preferences s)\<lparr>dataSource := pd\<rparr>
           \<and> prompted s' = prompted s @ l \<and> fst ` set l \<subseteq> {PBaseUrl}"
proof -
  have "program s' = (program s)\<lparr>dataSource := dataSource (program s')\<rparr>
        \<and> preferences s' = (preferences s)\<lparr>dataSource := dataSource (preferences s')\<rparr>
        \<and> prompted s' = prompted s @ drop (length (prompted s)) (prompted s')
        \<and> fst ` set (drop (length (prompted s)) (prompted s')) \<subseteq> {PBaseUrl}"
    using assms
    by (auto simp: askBaseUrl_def data_defs prompt_defs
        split: if_splits option.splits response.splits ds_ref.splits)
  then show ?thesis by (intro exI) assumption
qed

subsection \<open>The steps of a run in sequence\<close>

lemma thenDo_Inr_iff: "thenDo r f = Inr y \<longleftrightarrow> (\<exists>x. r = Inr x \<and> f x = Inr y)"
  by (cases r) (simp_all add: thenDo_def)

lemma askRest_chain:
  assumes "askRest e ops s0 = Inr sF"
  shows "\<exists>s1 s2 s3 s4 s5 s6 s7 s8 s9 s10 s11 s12 s13.
           askFramework e ops s0 = Inr s1 \<and> askFrontend e ops s1 = Inr s2
         \<and> askUi e ops s2 = Inr s3 \<and> askModel e ops s3 = Inr s4
         \<and> askEmbeddingModel e ops s4 = Inr s5 \<and> useFiles e s5 = Inr s6
         \<and> askDataSource e ops s6 = Inr s7 \<and> askLlamaParse e ops s7 = Inr s8
         \<and> askBaseUrl e ops s8 = Inr s9 \<and> askVectorDb e ops s9 = Inr s10
         \<and> askTools e ops s10 = Inr s11 \<and> askOpenAiKey e ops s11 = Inr s12
         \<and> askEslint e ops s12 = Inr s13 \<and> askPostInstallAction e ops s13 = Inr sF"
  using assms unfolding askRest_def thenDo_Inr_iff by blast

text \<open>
  A run of \<open>askRest\<close> that returns: its intermediate states, and what each step changed
  of \<open>program\<close>, of \<open>preferences\<close> and of the prompts issued.
\<close>

lemma askRest_frames [consumes 1, case_names steps]:
  assumes "askRest e ops s0 = Inr sF"
  obtains s1 s2 s3 s4 s5 s6 s7 s8 s9 s10 s11 s12 s13
    v1 v2 v3 v4 v5 d6 g7 d7 k8 d8 d9 v10 v11 v12 v13 v14
    w1 w2 w3 w4 w5 pd7 pd8 pd9 w10 w11 w12 w13 w14
    l1 l2 l3 l4 l5 l7 l8 l9 l10 l11 l12 l13 l14
  where
    "askFramework e ops s0 = Inr s1" "askFrontend e ops s1 = Inr s2"
    "askUi e ops s2 = Inr s3" "askModel e ops s3 = Inr s4"
    "askEmbeddingModel e ops s4 = Inr s5" "useFiles e s5 = Inr s6"
    "askDataSource e ops s6 = Inr s7" "askLlamaParse e ops s7 = Inr s8"
    "askBaseUrl e ops s8 = Inr s9" "askVectorDb e ops s9 = Inr s10"
    "askTools e ops s10 = Inr s11" "askOpenAiKey e ops s11 = Inr s12"
    "askEslint e ops s12 = Inr s13" "askPostInstallAction e ops s13 = Inr sF"
    and
    "program s1 = (program s0)\<lparr>framework := v1\<rparr>"
    "program s2 = (program s1)\<lparr>frontend := v2\<rparr>"
    "program s3 = (program s2)\<lparr>ui := v3\<rparr>"
    "program s4 = (program s3)\<lparr>model := v4\<rparr>"
    "program s5 = (program s4)\<lparr>embeddingModel := v5\<rparr>"
    "program s6 = (program s5)\<lparr>dataSource := d6\<rparr>"
    "program s7 = (program s6)\<lparr>engine := g7, dataSource := d7\<rparr>"
    "program s8 = (program s7)\<lparr>llamaCloudKey := k8, dataSource := d8\<rparr>"
    "program s9 = (program s8)\<lparr>dataSource := d9\<rparr>"
    "program s10 = (program s9)\<lparr>vectorDb := v10\<rparr>"
    "program s11 = (program s10)\<lparr>tools := v11\<rparr>"
    "program s12 = (program s11)\<lparr>openAiKey := v12\<rparr>"
    "program s13 = (program s12)\<lparr>eslint := v13\<rparr>"
    "program sF = (program s13)\<lparr>postInstallAction := v14\<rparr>"
    and
    "preferences s1 = (preferences s0)\<lparr>framework := w1\<rparr>"
    "preferences s2 = (preferences s1)\<lparr>frontend := w2\<rparr>"
    "preferences s3 = (preferences s2)\<lparr>ui := w3\<rparr>"
    "preferences s4 = (preferences s3)\<lparr>model := w4\<rparr>"
    "preferences s5 = (preferences s4)\<lparr>embeddingModel := w5\<rparr>"
    "preferences s6 = preferences s5"
    "preferences s7 = (preferences s6)\<lparr>dataSource := pd7\<rparr>"
    "preferences s8 = (preferences s7)\<lparr>dataSource := pd8\<rparr>"
    "preferences s9 = (preferences s8)\<lparr>dataSource := pd9\<rparr>"
    "preferences s10 = (preferences s9)\<lparr>vectorDb := w10\<rparr>"
    "preferences s11 = (preferences s10)\<lparr>tools := w11\<rparr>"
    "preferences s12 = (preferences s11)\<lparr>openAiKey := w12\<rparr>"
    "preferences s13 = (preferences s12)\<lparr>eslint := w13\<rparr>"
    "preferences sF = (preferences s13)\<lparr>postInstallAction := w14\<rparr>"
    and
    "prompted s1 = prompted s0 @ l1" "prompted s2 = prompted s1 @ l2"
    "prompted s3 = prompted s2 @ l3" "prompted s4 = prompted s3 @ l4"
    "prompted s5 = prompted s4 @ l5" "prompted s6 = prompted s5"
    "prompted s7 = prompted s6 @ l7" "prompted s8 = prompted s7 @ l8"
    "prompted s9 = prompted s8 @ l9" "prompted s10 = prompted s9 @ l10"
    "prompted s11 = prompted s10 @ l11" "prompted s12 = prompted s11 @ l12"
    "prompted s13 = prompted s12 @ l13" "prompted sF = prompted s13 @ l14"
    and
    "fst ` set l1 \<subseteq> {PFramework}" "fst ` set l2 \<subseteq> {PFrontend}"
    "fst ` set l3 \<subseteq> {PUi}" "fst ` set l4 \<subseteq> {PModel}"
    "fst ` set l5 \<subseteq> {PEmbeddingModel}" "fst ` set l7 \<subseteq> {PDataSource}"
    "fst ` set l8 \<subseteq> {PUseLlamaParse, PLlamaCloudKey}" "fst ` set l9 \<subseteq> {PBaseUrl}"
    "fst ` set l10 \<subseteq> {PVectorDb}" "fst ` set l11 \<subseteq> {PToolsName}"
    "fst ` set l12 \<subseteq> {PKey}" "fst ` set l13 \<subseteq> {PEslint}"
    "fst ` set l14 \<subseteq> {PAction}"
proof -
  from askRest_chain [OF assms] obtain s1 s2 s3 s4 s5 s6 s7 s8 s9 s10 s11 s12 s13 where
    c1: "askFramework e ops s0 = Inr s1" and c2: "askFrontend e ops s1 = Inr s2"
    and c3: "askUi e ops s2 = Inr s3" and c4: "askModel e ops s3 = Inr s4"
    and c5: "askEmbeddingModel e ops s4 = Inr s5" and c6: "useFiles e s5 = Inr s6"
    and c7: "askDataSource e ops s6 = Inr s7" and c8: "askLlamaParse e ops s7 = Inr s8"
    and c9: "askBaseUrl e ops s8 = Inr s9" and c10: "askVectorDb e ops s9 = Inr s10"
    and c11: "askTools e ops s10 = Inr s11" and c12: "askOpenAiKey e ops s11 = Inr s12"
    and c13: "askEslint e ops s12 = Inr s13" and c14: "askPostInstallAction e ops s13 = Inr sF"
    by blast
  from askFramework_frame [OF c1] obtain v1 w1 l1 where
    f1: "program s1 = (program s0)\<lparr>framework := v1\<rparr>"
      "preferences s1 = (preferences s0)\<lparr>framework := w1\<rparr>"
      "prompted s1 = prompted s0 @ l1" "fst ` set l1 \<subseteq> {PFramework}" by blast
  from askFrontend_frame [OF c2] obtain v2 w2 l2 where
    f2: "program s2 = (program s1)\<lparr>frontend := v2\<rparr>"
      "preferences s2 = (preferences s1)\<lparr>frontend := w2\<rparr>"
      "prompted s2 = prompted s1 @ l2" "fst ` set l2 \<subseteq> {PFrontend}" by blast
  from askUi_frame [OF c3] obtain v3 w3 l3 where
    f3: "program s3 = (program s2)\<lparr>ui := v3\<rparr>"
      "preferences s3 = (preferences s2)\<lparr>ui := w3\<rparr>"
      "prompted s3 = prompted s2 @ l3" "fst ` set l3 \<subseteq> {PUi}" by blast
  from askModel_frame [OF c4] obtain v4 w4 l4 where
    f4: "program s4 = (program s3)\<lparr>model := v4\<rparr>"
      "preferences s4 = (preferences s3)\<lparr>model := w4\<rparr>"
      "prompted s4 = prompted s3 @ l4" "fst ` set l4 \<subseteq> {PModel}" by blast
  from askEmbeddingModel_frame [OF c5] obtain v5 w5 l5 where
    f5: "program s5 = (program s4)\<lparr>embeddingModel := v5\<rparr>"
      "preferences s5 = (preferences s4)\<lparr>embeddingModel := w5\<rparr>"
      "prompted s5 = prompted s4 @ l5" "fst ` set l5 \<subseteq> {PEmbeddingModel}" by blast
  from useFiles_frame [OF c6] obtain d6 where
    f6: "program s6 = (program s5)\<lparr>dataSource := d6\<rparr>"
      "preferences s6 = preferences s5" "prompted s6 = prompted s5" by blast
  from askDataSource_frame [OF c7] obtain g7 d7 pd7 l7 where
    f7: "program s7 = (program s6)\<lparr>engine := g7, dataSource := d7\<rparr>"
      "preferences s7 = (preferences s6)\<lparr>dataSource := pd7\<rparr>"
      "prompted s7 = prompted s6 @ l7" "fst ` set l7 \<subseteq> {PDataSource}" by blast
  from askLlamaParse_frame [OF c8] obtain k8 d8 pd8 l8 where
    f8: "program s8 = (program s7)\<lparr>llamaCloudKey := k8, dataSource := d8\<rparr>"
      "preferences s8 = (preferences s7)\<lparr>dataSource := pd8\<rparr>"
      "prompted s8 = prompted s7 @ l8"
      "fst ` set l8 \<subseteq> {PUseLlamaParse, PLlamaCloudKey}" by blast
  from askBaseUrl_frame [OF c9] obtain d9 pd9 l9 where
    f9: "program s9 = (program s8)\<lparr>dataSource := d9\<rparr>"
      "preferences s9 = (preferences s8)\<lparr>dataSource := pd9\<rparr>"
      "prompted s9 = prompted s8 @ l9" "fst ` set l9 \<subseteq> {PBaseUrl}" by blast
  from askVectorDb_frame [OF c10] obtain v10 w10 l10 where
    f10: "program s10 = (program s9)\<lparr>vectorDb := v10\<rparr>"
      "preferences s10 = (preferences s9)\<lparr>vectorDb := w10\<rparr>"
      "prompted s10 = prompted s9 @ l10" "fst ` set l10 \<subseteq> {PVectorDb}" by blast
  from askTools_frame [OF c11] obtain v11 w11 l11 where
    f11: "program s11 = (program s10)\<lparr>tools := v11\<rparr>"
      "preferences s11 = (preferences s10)\<lparr>tools := w11\<rparr>"
      "prompted s11 = prompted s10 @ l11" "fst ` set l11 \<subseteq> {PToolsName}" by blast
  from askOpenAiKey_frame [OF c12] obtain v12 w12 l12 where
    f12: "program s12 = (program s11)\<lparr>openAiKey := v12\<rparr>"
      "preferences s12 = (preferences s11)\<lparr>openAiKey := w12\<rparr>"
      "prompted s12 = prompted s11 @ l12" "fst ` set l12 \<subseteq> {PKey}" by blast
  from askEslint_frame [OF c13] obtain v13 w13 l13 where
    f13: "program s13 = (program s12)\<lparr>eslint := v13\<rparr>"
      "preferences s13 = (preferences s12)\<lparr>eslint := w13\<rparr>"
      "prompted s13 = prompted s12 @ l13" "fst ` set l13 \<subseteq> {PEslint}" by blast
  from askPostInstallAction_frame [OF c14] obtain v14 w14 l14 where
    f14: "program sF = (program s13)\<lparr>postInstallAction := v14\<rparr>"
      "preferences sF = (preferences s13)\<lparr>postInstallAction := w14\<rparr>"
      "prompted sF = prompted s13 @ l14" "fst ` set l14 \<subseteq> {PAction}" by blast
  show thesis
    by (rule that [OF c1 c2 c3 c4 c5 c6 c7 c8 c9 c10 c11 c12 c13 c14
          f1(1) f2(1) f3(1) f4(1) f5(1) f6(1) f7(1) f8(1) f9(1) f10(1) f11(1) f12(1) f13(1) f14(1)
          f1(2) f2(2) f3(2) f4(2) f5(2) f6(2) f7(2) f8(2) f9(2) f10(2) f11(2) f12(2) f13(2) f14(2)
          f1(3) f2(3) f3(3) f4(3) f5(3) f6(3) f7(3) f8(3) f9(3) f10(3) f11(3) f12(3) f13(3) f14(3)
          f1(4) f2(4) f3(4) f4(4) f5(4) f7(4) f8(4) f9(4) f10(4) f11(4) f12(4) f13(4) f14(4)])
qed

lemma askQuestions_split:
  assumes "askQuestions e ops prog prefs = Inr sF"
  obtains s1 where "askTemplate e ops (initState prog prefs) = Inr s1"
    and "afterTemplate e ops s1 = Inr sF"
  using assms unfolding askQuestions_def thenDo_Inr_iff by blast

lemma askRest_recorded:
  assumes "askRest e ops s0 = Inr sF" and "fst ` set (prompted s0) \<subseteq> {PTemplate}"
  shows "(template (program sF) = template (program s0))
    \<and> (template (preferences sF) = template (preferences s0))
    \<and> (PTemplate \<in> fst ` set (prompted sF) \<longleftrightarrow> PTemplate \<in> fst ` set (prompted s0))
    \<and> (PCommunityProjectPath \<notin> fst ` set (prompted sF))
    \<and> (PLlamapack \<notin> fst ` set (prompted sF))
    \<and> (PFramework \<in> fst ` set (prompted sF) \<longrightarrow>
           (\<exists>a. ans_framework ops = Answer a \<and> framework (program sF) = Some a
              \<and> framework (preferences sF) = Some a))
    \<and> (PFrontend \<in> fst ` set (prompted sF) \<longrightarrow>
           (\<exists>a. ans_frontend ops = Answer a \<and> frontend (program sF) = Some a
              \<and> frontend (preferences sF) = Some a))
    \<and> (PUi \<in> fst ` set (prompted sF) \<longrightarrow>
           (\<exists>a. ans_ui ops = Answer a \<and> ui (program sF) = Some a
              \<and> ui (preferences sF) = Some a))
    \<and> (PModel \<in> fst ` set (prompted sF) \<longrightarrow>
           (\<exists>a. ans_model ops = Answer a \<and> model (program sF) = Some a
              \<and> model (preferences sF) = Some a))
    \<and> (PEmbeddingModel \<in> fst ` set (prompted sF) \<longrightarrow>
           (\<exists>a. ans_embeddingModel ops = Answer a \<and> embeddingModel (program sF) = Some a
              \<and> embeddingModel (preferences sF) = Some a))
    \<and> (PVectorDb \<in> fst ` set (prompted sF) \<longrightarrow>
           (\<exists>a. ans_vectorDb ops = Answer a \<and> vectorDb (program sF) = Some a
              \<and> vectorDb (preferences sF) = Some a))
    \<and> (PToolsName \<in> fst ` set (prompted sF) \<longrightarrow>
           tools (program sF) =
             findTools e (case ans_toolsName ops of Abort \<Rightarrow> None | Answer a \<Rightarrow> Some a)
           \<and> tools (preferences sF) =
             findTools e (case ans_toolsName ops of Abort \<Rightarrow> None | Answer a \<Rightarrow> Some a))
    \<and> (PKey \<in> fst ` set (prompted sF) \<longrightarrow>
           (\<exists>a. ans_key ops = Answer a \<and> openAiKey (program sF) = Some a
              \<and> openAiKey (preferences sF) = Some a))
    \<and> (PEslint \<in> fst ` set (prompted sF) \<longrightarrow>
           (\<exists>a. ans_eslint ops = Answer a \<and> eslint (program sF) = Some a
              \<and> eslint (preferences sF) = Some a))"
  using assms(1)
proof (cases rule: askRest_frames)
    case (steps s1 s2 s3 s4 s5 s6 s7 s8 s9 s10 s11 s12 s13
      v1 v2 v3 v4 v5 d6 g7 d7 k8 d8 d9 v10 v11 v12 v13 v14
      w1 w2 w3 w4 w5 pd7 pd8 pd9 w10 w11 w12 w13 w14
      l1 l2 l3 l4 l5 l7 l8 l9 l10 l11 l12 l13 l14)
    note prog = steps(15-28) and pref = steps(29-42) and log = steps(43-56)
      and sub = steps(57-69)
    define A where "A = (\<lambda>l :: (prompt_t \<times> string list) list. fst ` set l)"
    have sub': "A l1 \<subseteq> {PFramework}" "A l2 \<subseteq> {PFrontend}" "A l3 \<subseteq> {PUi}" "A l4 \<subseteq> {PModel}"
      "A l5 \<subseteq> {PEmbeddingModel}" "A l7 \<subseteq> {PDataSource}"
      "A l8 \<subseteq> {PUseLlamaParse, PLlamaCloudKey}" "A l9 \<subseteq> {PBaseUrl}"
      "A l10 \<subseteq> {PVectorDb}" "A l11 \<subseteq> {PToolsName}" "A l12 \<subseteq> {PKey}" "A l13 \<subseteq> {PEslint}"
      "A l14 \<subseteq> {PAction}" "A (prompted s0) \<subseteq> {PTemplate}"
      using sub assms(2) by (simp_all add: A_def)
    have logF: "fst ` set (prompted sF) = A (prompted s0)
        \<union> A l1 \<union> A l2 \<union> A l3 \<union> A l4 \<union> A l5 \<union> A l7 \<union> A l8 \<union> A l9 \<union> A l10 \<union> A l11
        \<union> A l12 \<union> A l13 \<union> A l14"
      by (simp add: A_def log image_Un Un_assoc)
    have ne: "l \<noteq> []" if "p \<in> A l" for p l
      using that by (auto simp: A_def)
    have a: "template (program sF) = template (program s0)" by (simp add: prog)
    have b: "template (preferences sF) = template (preferences s0)" by (simp add: pref)
    have c: "PTemplate \<in> fst ` set (prompted sF) \<longleftrightarrow> PTemplate \<in> fst ` set (prompted s0)"
      unfolding logF using sub' by (auto simp: A_def)
    have d: "PCommunityProjectPath \<notin> fst ` set (prompted sF)"
      unfolding logF using sub' by blast
    have d': "PLlamapack \<notin> fst ` set (prompted sF)"
      unfolding logF using sub' by blast
    have e1: "PFramework \<in> fst ` set (prompted sF) \<longrightarrow>
           (\<exists>a. ans_framework ops = Answer a \<and> framework (program sF) = Some a
              \<and> framework (preferences sF) = Some a)"
    proof
      assume "PFramework \<in> fst ` set (prompted sF)"
      then have "l1 \<noteq> []" unfolding logF using sub' ne [of _ l1] by blast
      with askFramework_value [OF steps(1)] show
        "\<exists>a. ans_framework ops = Answer a \<and> framework (program sF) = Some a
              \<and> framework (preferences sF) = Some a"
        by (auto simp: prog pref log)
    qed
    have e2: "PFrontend \<in> fst ` set (prompted sF) \<longrightarrow>
           (\<exists>a. ans_frontend ops = Answer a \<and> frontend (program sF) = Some a
              \<and> frontend (preferences sF) = Some a)"
    proof
      assume "PFrontend \<in> fst ` set (prompted sF)"
      then have "l2 \<noteq> []" unfolding logF using sub' ne [of _ l2] by blast
      with askFrontend_value [OF steps(2)] show
        "\<exists>a. ans_frontend ops = Answer a \<and> frontend (program sF) = Some a
              \<and> frontend (preferences sF) = Some a"
        by (auto simp: prog pref log)
    qed
    have e3: "PUi \<in> fst ` set (prompted sF) \<longrightarrow>
           (\<exists>a. ans_ui ops = Answer a \<and> ui (program sF) = Some a
              \<and> ui (preferences sF) = Some a)"
    proof
      assume "PUi \<in> fst ` set (prompted sF)"
      then have "l3 \<noteq> []" unfolding logF using sub' ne [of _ l3] by blast
      with askUi_value [OF steps(3)] show
        "\<exists>a. ans_ui ops = Answer a \<and> ui (program sF) = Some a
              \<and> ui (preferences sF) = Some a"
        by (auto simp: prog pref log)
    qed
    have e4: "PModel \<in> fst ` set (prompted sF) \<longrightarrow>
           (\<exists>a. ans_model ops = Answer a \<and> model (program sF) = Some a
              \<and> model (preferences sF) = Some a)"
    proof
      assume "PModel \<in> fst ` set (prompted sF)"
      then have "l4 \<noteq> []" unfolding logF using sub' ne [of _ l4] by blast
      with askModel_value [OF steps(4)] show
        "\<exists>a. ans_model ops = Answer a \<and> model (program sF) = Some a
              \<and> model (preferences sF) = Some a"
        by (auto simp: prog pref log)
    qed
    have e5: "PEmbeddingModel \<in> fst ` set (prompted sF) \<longrightarrow>
           (\<exists>a. ans_embeddingModel ops = Answer a \<and> embeddingModel (program sF) = Some a
              \<and> embeddingModel (preferences sF) = Some a)"
    proof
      assume "PEmbeddingModel \<in> fst ` set (prompted sF)"
      then have "l5 \<noteq> []" unfolding logF using sub' ne [of _ l5] by blast
      with askEmbeddingModel_value [OF steps(5)] show
        "\<exists>a. ans_embeddingModel ops = Answer a \<and> embeddingModel (program sF) = Some a
              \<and> embeddingModel (preferences sF) = Some a"
        by (auto simp: prog pref log)
    qed
    have e10: "PVectorDb \<in> fst ` set (prompted sF) \<longrightarrow>
           (\<exists>a. ans_vectorDb ops = Answer a \<and> vectorDb (program sF) = Some a
              \<and> vectorDb (preferences sF) = Some a)"
    proof
      assume "PVectorDb \<in> fst ` set (prompted sF)"
      then have "l10 \<noteq> []" unfolding logF using sub' ne [of _ l10] by blast
      with askVectorDb_value [OF steps(10)] show
        "\<exists>a. ans_vectorDb ops = Answer a \<and> vectorDb (program sF) = Some a
              \<and> vectorDb (preferences sF) = Some a"
        by (auto simp: prog pref log)
    qed
    have e11: "PToolsName \<in> fst ` set (prompted sF) \<longrightarrow>
           tools (program sF) =
             findTools e (case ans_toolsName ops of Abort \<Rightarrow> None | Answer a \<Rightarrow> Some a)
           \<and> tools (preferences sF) =
             findTools e (case ans_toolsName ops of Abort \<Rightarrow> None | Answer a \<Rightarrow> Some a)"
    proof
      assume "PToolsName \<in> fst ` set (prompted sF)"
      then have "l11 \<noteq> []" unfolding logF using sub' ne [of _ l11] by blast
      with askTools_value [OF steps(11)] show
        "tools (program sF) =
             findTools e (case ans_toolsName ops of Abort \<Rightarrow> None | Answer a \<Rightarrow> Some a)
           \<and> tools (preferences sF) =
             findTools e (case ans_toolsName ops of Abort \<Rightarrow> None | Answer a \<Rightarrow> Some a)"
        by (auto simp: prog pref log)
    qed
    have e12: "PKey \<in> fst ` set (prompted sF) \<longrightarrow>
           (\<exists>a. ans_key ops = Answer a \<and> openAiKey (program sF) = Some a
              \<and> openAiKey (preferences sF) = Some a)"
    proof
      assume "PKey \<in> fst ` set (prompted sF)"
      then have "l12 \<noteq> []" unfolding logF using sub' ne [of _ l12] by blast
      with askOpenAiKey_value [OF steps(12)] show
        "\<exists>a. ans_key ops = Answer a \<and> openAiKey (program sF) = Some a
              \<and> openAiKey (preferences sF) = Some a"
        by (auto simp: prog pref log)
    qed
    have e13: "PEslint \<in> fst ` set (prompted sF) \<longrightarrow>
           (\<exists>a. ans_eslint ops = Answer a \<and> eslint (program sF) = Some a
              \<and> eslint (preferences sF) = Some a)"
    proof
      assume "PEslint \<in> fst ` set (prompted sF)"
      then have "l13 \<noteq> []" unfolding logF using sub' ne [of _ l13] by blast
      with askEslint_value [OF steps(13)] show
        "\<exists>a. ans_eslint ops = Answer a \<and> eslint (program sF) = Some a
              \<and> eslint (preferences sF) = Some a"
        by (auto simp: prog pref log)
    qed
    from a b c d d' e1 e2 e3 e4 e5 e10 e11 e12 e13 show ?thesis by blast
qed


subsection \<open>A files path given on the input\<close>

text \<open>
  C1. The claim: with a files path that exists, the engine becomes "context", the data
  source is derived from the path and no data source prompt is issued. The code only
  compares \<open>program.engine\<close> with "context". On the input below (files path
  \<open>/data\<close>, an existing directory; engine unset; interactive) the data source prompt is
  issued, and with the answer "simple" the engine is "simple" and the data source derived
  from the path is replaced by the one of type "none".
\<close>

theorem files_engine_not_context:
  "map_option engine (finalProgram (askQuestions sampleEnv sampleOperator filesInput noArgs))
     = Some (Some SimpleEngine)
   \<and> map_option dataSource (finalProgram (askQuestions sampleEnv sampleOperator filesInput noArgs))
     = Some (Some \<lparr>ds_type = DsNone, config = emptyConfig\<rparr>)
   \<and> promptsIssued (askQuestions sampleEnv sampleOperator filesInput noArgs) = Some [PDataSource]"
  by (simp add: flow_defs observe_defs sample_defs filesInput_def)

subsection \<open>Aborting a prompt\<close>

lemma promptHandlers_Abort: "promptHandlers p c Abort s = Inl (Exit 1 [''Exiting.''])"
  by (simp add: promptHandlers_def onCancel_def)

lemma promptOnState_Abort: "promptOnState p c Abort s = Inl (Exit 1 [cursorShow, [CHR 0x0A]])"
  by (simp add: promptOnState_def onPromptState_def)

text \<open>
  C8. The claim: aborting any prompt ends the process with a non-zero status. The tools
  prompt is issued without \<open>handlers\<close> and without \<open>onState\<close>: on the input below
  (FastAPI, context engine, tools unset, interactive) the operator aborts the tools prompt,
  the run goes on to the post-install prompt and returns, with \<open>tools\<close> undefined.
\<close>

theorem tools_abort_continues:
  "promptsIssued (askQuestions sampleEnv (sampleOperator\<lparr>ans_toolsName := Abort\<rparr>) toolsInput noArgs)
     = Some [PToolsName, PAction]
   \<and> map_option tools
        (finalProgram (askQuestions sampleEnv (sampleOperator\<lparr>ans_toolsName := Abort\<rparr>) toolsInput noArgs))
     = Some None
   \<and> map_option postInstallAction
        (finalProgram (askQuestions sampleEnv (sampleOperator\<lparr>ans_toolsName := Abort\<rparr>) toolsInput noArgs))
     = Some (Some Dependencies)"
  by (simp add: flow_defs observe_defs sample_defs toolsInput_def)

subsection \<open>Inputs that are already complete\<close>


text \<open>
  Under CI, with FastAPI and a file or folder data source, line 580 replaces
  \<open>llamaCloudKey\<close> by the preference or default without testing that it is unset,
  unlike every other CI branch: a key given on the input is lost.
\<close>

lemma ci_llamaCloudKey_overwritten:
  "map_option llamaCloudKey
     (finalProgram (askQuestions (sampleEnv\<lparr>isCI := True\<rparr>) sampleOperator fastapiInput noArgs))
   = Some (Some [])
   \<and> llamaCloudKey fastapiInput = Some ''llx-1''"
  by (simp add: flow_defs observe_defs sample_defs fastapiInput_def fullInput_def)





subsection \<open>The community template\<close>

text \<open>
  C6. When the template resolves to "community" (given, chosen at the prompt, or taken
  from the preferences under CI), askQuestions fetches the root folders, asks for the
  community project and returns: the configuration is the input with \<open>template\<close> and
  \<open>communityProjectPath\<close> set and every other field as on the input, and no prompt other
  than the template prompt and the community project prompt is issued.
\<close>

theorem community_short_circuit:
  assumes "askTemplate e ops (initState prog prefs) = Inr s1"
    and "template (program s1) = Some Community"
    and "getRepoRootFolders e = Some names"
    and "ans_communityProjectPath ops = Answer c"
  shows "\<exists>sF. askQuestions e ops prog prefs = Inr sF
           \<and> program sF = prog\<lparr>template := Some Community, communityProjectPath := Some c\<rparr>
           \<and> map fst (prompted sF) =
               (if template prog = None \<and> \<not> isCI e then [PTemplate] else [])
               @ [PCommunityProjectPath]"
proof -
  have s1: "program s1 = prog\<lparr>template := Some Community\<rparr>
      \<and> map fst (prompted s1) = (if template prog = None \<and> \<not> isCI e then [PTemplate] else [])"
    using assms(1,2)
    by (auto simp: askTemplate_def initState_def prompt_defs split: if_splits response.splits)
  have "askQuestions e ops prog prefs =
      Inr (s1\<lparr>program := (program s1)\<lparr>communityProjectPath := Some c\<rparr>,
              preferences := (preferences s1)\<lparr>communityProjectPath := Some c\<rparr>,
              prompted := prompted s1 @ [(PCommunityProjectPath, names)]\<rparr>)"
    using assms
    by (simp add: askQuestions_def afterTemplate_def askCommunityProjectPath_def prompt_defs)
  with s1 show ?thesis by simp
qed

theorem community_short_circuit_witness:
  "\<exists>sF. askQuestions sampleEnv (sampleOperator\<lparr>ans_template := Answer Community\<rparr>)
            (noArgs\<lparr>framework := Some Express\<rparr>) noArgs = Inr sF
        \<and> program sF = noArgs\<lparr>framework := Some Express, template := Some Community,
                                 communityProjectPath := Some ''sec-insights''\<rparr>
        \<and> map fst (prompted sF) = [PTemplate, PCommunityProjectPath]"
proof -
  let ?ops = "sampleOperator\<lparr>ans_template := Answer Community\<rparr>"
  let ?prog = "noArgs\<lparr>framework := Some Express\<rparr>"
  let ?s1 = "(initState ?prog noArgs)
         \<lparr>program := ?prog\<lparr>template := Some Community\<rparr>,
          preferences := noArgs\<lparr>template := Some Community\<rparr>,
          prompted := [(PTemplate, [''simple'', ''streaming'', ''community'', ''llamapack''])]\<rparr>"
  have h1: "askTemplate sampleEnv ?ops (initState ?prog noArgs) = Inr ?s1"
    by (simp add: askTemplate_def prompt_defs sample_defs)
  have h2: "template (program ?s1) = Some Community" by simp
  have h3: "getRepoRootFolders sampleEnv = Some [''sec-insights'', ''chat-llamaindex'']"
    by (simp add: sampleEnv_def)
  have h4: "ans_communityProjectPath ?ops = Answer ''sec-insights''"
    by (simp add: sampleOperator_def)
  have h5: "template ?prog = None \<and> \<not> isCI sampleEnv"
    by (simp add: sample_defs)
  show ?thesis
    using community_short_circuit [OF h1 h2 h3 h4] h5 by simp
qed

subsection \<open>The website base URL\<close>

lemma str_includes_iff: "str_includes s sub \<longleftrightarrow> (\<exists>pre post. s = pre @ sub @ post)"
proof (induction s)
  case Nil
  show ?case by auto
next
  case (Cons c cs)
  have "take (length sub) (c # cs) = sub \<longleftrightarrow> (\<exists>post. c # cs = sub @ post)"
    by (metis append_eq_conv_conj)
  moreover have "(\<exists>pre post. c # cs = pre @ sub @ post) \<longleftrightarrow>
      (\<exists>post. c # cs = sub @ post) \<or> (\<exists>pre post. cs = pre @ sub @ post)"
  proof
    assume "\<exists>pre post. c # cs = pre @ sub @ post"
    then obtain pre post where eq: "c # cs = pre @ sub @ post" by blast
    show "(\<exists>post. c # cs = sub @ post) \<or> (\<exists>pre post. cs = pre @ sub @ post)"
    proof (cases pre)
      case Nil
      with eq show ?thesis by auto
    next
      case (Cons p ps)
      with eq have "cs = ps @ sub @ post" by simp
      then show ?thesis by blast
    qed
  next
    assume "(\<exists>post. c # cs = sub @ post) \<or> (\<exists>pre post. cs = pre @ sub @ post)"
    then show "\<exists>pre post. c # cs = pre @ sub @ post"
    proof
      assume "\<exists>post. c # cs = sub @ post"
      then obtain post where "c # cs = [] @ sub @ post" by auto
      then show ?thesis by blast
    next
      assume "\<exists>pre post. cs = pre @ sub @ post"
      then obtain pre post where "c # cs = (c # pre) @ sub @ post" by auto
      then show ?thesis by blast
    qed
  qed
  ultimately show ?case using Cons.IH by simp
qed

lemma program_writeDataSource: "program (writeDataSource d s) = (program s)\<lparr>dataSource := Some d\<rparr>"
  by (simp add: writeDataSource_def split: ds_ref.splits)

lemma prompted_writeDataSource: "prompted (writeDataSource d s) = prompted s"
  by (simp add: writeDataSource_def split: ds_ref.splits)

text \<open>
  C5. With a data source of type "web" and the FastAPI framework, the base URL the
  operator enters is prefixed with "https://" when it does not contain "://". When the
  result parses as a URL whose protocol is "https:" or "http:", the data source gets the
  config \<open>{baseUrl, depth: 1}\<close> with the normalised URL (its type stays "web"). In every
  other case (the URL does not parse, or has another protocol) the process exits with
  status 1 after the error message, whatever would have followed.
\<close>

theorem website_base_url:
  assumes "dataSource (program s) = Some d" and "ds_type d = DsWeb"
    and "framework (program s) = Some Fastapi" and "ans_baseUrl ops = Answer u"
  shows "(str_includes u ''://'' \<longrightarrow> normalizeUrl u = u)
       \<and> (\<not> str_includes u ''://'' \<longrightarrow> normalizeUrl u = ''https://'' @ u)
       \<and> (urlProtocol e (normalizeUrl u) = Some ''https:''
            \<or> urlProtocol e (normalizeUrl u) = Some ''http:'' \<longrightarrow>
           (\<exists>s'. askBaseUrl e ops s = Inr s'
              \<and> dataSource (program s') =
                  Some \<lparr>ds_type = DsWeb,
                        config = \<lparr>path = None, useLlamaParse = None,
                                  baseUrl = Some (normalizeUrl u), depth = Some 1\<rparr>\<rparr>
              \<and> prompted s' = prompted s @ [(PBaseUrl, [])]))
       \<and> (\<not> (urlProtocol e (normalizeUrl u) = Some ''https:''
              \<or> urlProtocol e (normalizeUrl u) = Some ''http:'') \<longrightarrow>
           (\<forall>k. thenDo (askBaseUrl e ops s) k =
              Inl (Exit 1 [''Invalid URL provided! Please provide a valid URL (e.g. https://www.llamaindex.ai)''])))"
proof -
  have valid: "validUrl e (normalizeUrl u) \<longleftrightarrow>
      urlProtocol e (normalizeUrl u) = Some ''https:'' \<or> urlProtocol e (normalizeUrl u) = Some ''http:''"
    by (auto simp: validUrl_def split: option.splits)
  have d: "d\<lparr>config := c\<rparr> = \<lparr>ds_type = DsWeb, config = c\<rparr>" for c
    using assms(2) by (cases d) simp
  have step: "askBaseUrl e ops s =
      (if validUrl e (normalizeUrl u)
       then Inr (writeDataSource
                  \<lparr>ds_type = DsWeb,
                   config = \<lparr>path = None, useLlamaParse = None,
                             baseUrl = Some (normalizeUrl u), depth = Some 1\<rparr>\<rparr>
                  (logPrompt PBaseUrl [] s))
       else Inl invalidUrlExit)"
    using assms by (simp add: askBaseUrl_def promptHandlers_def thenDo_def d)
  show ?thesis
    unfolding step valid [symmetric]
    by (simp add: normalizeUrl_def program_writeDataSource prompted_writeDataSource
        logPrompt_def thenDo_def invalidUrlExit_def)
qed

theorem website_base_url_witness:
  "(\<exists>s'. askBaseUrl sampleEnv sampleOperator webState = Inr s'
      \<and> dataSource (program s') =
          Some \<lparr>ds_type = DsWeb,
                config = \<lparr>path = None, useLlamaParse = None,
                          baseUrl = Some ''https://www.example.com'', depth = Some 1\<rparr>\<rparr>
      \<and> prompted s' = [(PBaseUrl, [])])
   \<and> askBaseUrl sampleEnv (sampleOperator\<lparr>ans_baseUrl := Answer ''ftp://x.com''\<rparr>) webState =
       Inl (Exit 1 [''Invalid URL provided! Please provide a valid URL (e.g. https://www.llamaindex.ai)''])"
proof -
  let ?d = "\<lparr>ds_type = DsWeb, config = emptyConfig\<rparr>"
  have h1: "dataSource (program webState) = Some ?d" by (simp add: webState_def sample_defs)
  have h2: "ds_type ?d = DsWeb" by simp
  have h3: "framework (program webState) = Some Fastapi" by (simp add: webState_def sample_defs)
  have h4: "ans_baseUrl sampleOperator = Answer ''www.example.com''"
    by (simp add: sampleOperator_def)
  have h4': "ans_baseUrl (sampleOperator\<lparr>ans_baseUrl := Answer ''ftp://x.com''\<rparr>) = Answer ''ftp://x.com''"
    by simp
  have n1: "normalizeUrl ''www.example.com'' = ''https://www.example.com''"
    by (simp add: normalizeUrl_def)
  have n2: "normalizeUrl ''ftp://x.com'' = ''ftp://x.com''"
    by (simp add: normalizeUrl_def)
  have p1: "urlProtocol sampleEnv ''https://www.example.com'' = Some ''https:''"
    by (simp add: sampleEnv_def)
  have p2: "urlProtocol sampleEnv ''ftp://x.com'' = Some ''ftp:''"
    by (simp add: sampleEnv_def)
  have l: "prompted webState = []" by (simp add: webState_def initState_def)
  from website_base_url [OF h1 h2 h3 h4, of sampleEnv] n1 p1 l
  have a: "\<exists>s'. askBaseUrl sampleEnv sampleOperator webState = Inr s'
      \<and> dataSource (program s') =
          Some \<lparr>ds_type = DsWeb,
                config = \<lparr>path = None, useLlamaParse = None,
                          baseUrl = Some ''https://www.example.com'', depth = Some 1\<rparr>\<rparr>
      \<and> prompted s' = [(PBaseUrl, [])]"
    by simp
  from website_base_url [OF h1 h2 h3 h4', of sampleEnv] n2 p2
  have "\<forall>k. thenDo (askBaseUrl sampleEnv (sampleOperator\<lparr>ans_baseUrl := Answer ''ftp://x.com''\<rparr>) webState) k =
       Inl (Exit 1 [''Invalid URL provided! Please provide a valid URL (e.g. https://www.llamaindex.ai)''])"
    by simp
  then have "thenDo (askBaseUrl sampleEnv (sampleOperator\<lparr>ans_baseUrl := Answer ''ftp://x.com''\<rparr>) webState) Inr =
       Inl (Exit 1 [''Invalid URL provided! Please provide a valid URL (e.g. https://www.llamaindex.ai)''])"
    by blast
  then have b: "askBaseUrl sampleEnv (sampleOperator\<lparr>ans_baseUrl := Answer ''ftp://x.com''\<rparr>) webState =
       Inl (Exit 1 [''Invalid URL provided! Please provide a valid URL (e.g. https://www.llamaindex.ai)''])"
    by (simp add: thenDo_def split: sum.splits)
  from a b show ?thesis by blast
qed

subsection \<open>Runs under CI\<close>




subsection \<open>Answers and the preferences\<close>

text \<open>
  C7, as stated, fails: the answer to the post-install prompt is written to the
  configuration only. (The same holds for the data source, LlamaParse, LlamaCloud key and
  base URL prompts.)
\<close>

theorem action_answer_not_in_preferences:
  "promptsIssued (askQuestions sampleEnv sampleOperator toolsInput noArgs)
     = Some [PToolsName, PAction]
   \<and> map_option postInstallAction
        (finalProgram (askQuestions sampleEnv sampleOperator toolsInput noArgs))
     = Some (Some Dependencies)
   \<and> map_option postInstallAction
        (finalPreferences (askQuestions sampleEnv sampleOperator toolsInput noArgs))
     = Some None"
  by (simp add: flow_defs observe_defs sample_defs toolsInput_def)

text \<open>
  C7, amended. In a run that returns, for each of the prompts template, community
  project, LlamaPack, framework, frontend, ui, model, embedding model, vector database,
  OpenAI key and ESLint that was issued, the operator's answer is the value of the field
  both in the configuration and in the preferences at the end of the run; for the tools
  prompt both hold the tools found for the selected names (both undefined when the prompt
  was aborted).
\<close>

theorem answers_recorded:
  assumes "askQuestions e ops prog prefs = Inr sF"
  shows "(PTemplate \<in> fst ` set (prompted sF) \<longrightarrow>
           (\<exists>a. ans_template ops = Answer a \<and> template (program sF) = Some a
              \<and> template (preferences sF) = Some a))
    \<and> (PCommunityProjectPath \<in> fst ` set (prompted sF) \<longrightarrow>
           (\<exists>a. ans_communityProjectPath ops = Answer a
              \<and> communityProjectPath (program sF) = Some a
              \<and> communityProjectPath (preferences sF) = Some a))
    \<and> (PLlamapack \<in> fst ` set (prompted sF) \<longrightarrow>
           (\<exists>a. ans_llamapack ops = Answer a \<and> llamapack (program sF) = Some a
              \<and> llamapack (preferences sF) = Some a))
    \<and> (PFramework \<in> fst ` set (prompted sF) \<longrightarrow>
           (\<exists>a. ans_framework ops = Answer a \<and> framework (program sF) = Some a
              \<and> framework (preferences sF) = Some a))
    \<and> (PFrontend \<in> fst ` set (prompted sF) \<longrightarrow>
           (\<exists>a. ans_frontend ops = Answer a \<and> frontend (program sF) = Some a
              \<and> frontend (preferences sF) = Some a))
    \<and> (PUi \<in> fst ` set (prompted sF) \<longrightarrow>
           (\<exists>a. ans_ui ops = Answer a \<and> ui (program sF) = Some a
              \<and> ui (preferences sF) = Some a))
    \<and> (PModel \<in> fst ` set (prompted sF) \<longrightarrow>
           (\<exists>a. ans_model ops = Answer a \<and> model (program sF) = Some a
              \<and> model (preferences sF) = Some a))
    \<and> (PEmbeddingModel \<in> fst ` set (prompted sF) \<longrightarrow>
           (\<exists>a. ans_embeddingModel ops = Answer a \<and> embeddingModel (program sF) = Some a
              \<and> embeddingModel (preferences sF) = Some a))
    \<and> (PVectorDb \<in> fst ` set (prompted sF) \<longrightarrow>
           (\<exists>a. ans_vectorDb ops = Answer a \<and> vectorDb (program sF) = Some a
              \<and> vectorDb (preferences sF) = Some a))
    \<and> (PToolsName \<in> fst ` set (prompted sF) \<longrightarrow>
           tools (program sF) =
             findTools e (case ans_toolsName ops of Abort \<Rightarrow> None | Answer a \<Rightarrow> Some a)
           \<and> tools (preferences sF) =
             findTools e (case ans_toolsName ops of Abort \<Rightarrow> None | Answer a \<Rightarrow> Some a))
    \<and> (PKey \<in> fst ` set (prompted sF) \<longrightarrow>
           (\<exists>a. ans_key ops = Answer a \<and> openAiKey (program sF) = Some a
              \<and> openAiKey (preferences sF) = Some a))
    \<and> (PEslint \<in> fst ` set (prompted sF) \<longrightarrow>
           (\<exists>a. ans_eslint ops = Answer a \<and> eslint (program sF) = Some a
              \<and> eslint (preferences sF) = Some a))"
proof -
  let ?I = "initState prog prefs"
  from assms obtain s1 where t: "askTemplate e ops ?I = Inr s1"
    and after: "afterTemplate e ops s1 = Inr sF"
    by (rule askQuestions_split)
  from askTemplate_frame [OF t] obtain vT wT lT where
    lT: "prompted s1 = lT" "fst ` set lT \<subseteq> {PTemplate}"
    by (auto simp: initState_def)
  then have sub1: "fst ` set (prompted s1) \<subseteq> {PTemplate}" by simp
  have tm: "PTemplate \<in> fst ` set (prompted s1) \<longrightarrow>
           (\<exists>a. ans_template ops = Answer a \<and> template (program s1) = Some a
              \<and> template (preferences s1) = Some a)"
    using askTemplate_value [OF t] by (auto simp: initState_def)
  consider (community) "template (program s1) = Some Community"
    | (llamapack) "template (program s1) = Some Llamapack"
    | (rest) "template (program s1) \<noteq> Some Community" "template (program s1) \<noteq> Some Llamapack"
    by blast
  then show ?thesis
  proof cases
    case community
    with after have "askCommunityProjectPath e ops s1 = Inr sF"
      by (simp add: afterTemplate_def)
    from askCommunityProjectPath_value [OF this] obtain a c where
      a: "ans_communityProjectPath ops = Answer a"
      and sF: "sF = s1\<lparr>program := (program s1)\<lparr>communityProjectPath := Some a\<rparr>,
               preferences := (preferences s1)\<lparr>communityProjectPath := Some a\<rparr>,
               prompted := prompted s1 @ [(PCommunityProjectPath, c)]\<rparr>"
      by blast
    have log: "fst ` set (prompted sF) \<subseteq> {PTemplate, PCommunityProjectPath}"
      "PTemplate \<in> fst ` set (prompted sF) \<longleftrightarrow> PTemplate \<in> fst ` set (prompted s1)"
      using sub1 by (auto simp: sF)
    have f: "template (program sF) = template (program s1)"
      "template (preferences sF) = template (preferences s1)"
      "communityProjectPath (program sF) = Some a"
      "communityProjectPath (preferences sF) = Some a"
      by (simp_all add: sF)
    have no: "PLlamapack \<notin> fst ` set (prompted sF)" "PFramework \<notin> fst ` set (prompted sF)"
      "PFrontend \<notin> fst ` set (prompted sF)" "PUi \<notin> fst ` set (prompted sF)"
      "PModel \<notin> fst ` set (prompted sF)" "PEmbeddingModel \<notin> fst ` set (prompted sF)"
      "PVectorDb \<notin> fst ` set (prompted sF)" "PToolsName \<notin> fst ` set (prompted sF)"
      "PKey \<notin> fst ` set (prompted sF)" "PEslint \<notin> fst ` set (prompted sF)"
      using log(1) by auto
    show ?thesis using tm a by (simp add: no f log(2))
  next
    case llamapack
    with after have "thenDo (askLlamapack e ops s1) (askPostInstallAction e ops) = Inr sF"
      by (simp add: afterTemplate_def)
    then obtain s2 where l: "askLlamapack e ops s1 = Inr s2"
      and p: "askPostInstallAction e ops s2 = Inr sF"
      unfolding thenDo_Inr_iff by blast
    from askLlamapack_value [OF l] obtain a and c :: "(string \<times> string) list" where
      a: "ans_llamapack ops = Answer a"
      and s2: "s2 = s1\<lparr>program := (program s1)\<lparr>llamapack := Some a\<rparr>,
               preferences := (preferences s1)\<lparr>llamapack := Some a\<rparr>,
               prompted := prompted s1 @ [(PLlamapack, map snd c)]\<rparr>"
      by blast
    from askPostInstallAction_frame [OF p] obtain v w l where
      fP: "program sF = (program s2)\<lparr>postInstallAction := v\<rparr>"
        "preferences sF = (preferences s2)\<lparr>postInstallAction := w\<rparr>"
        "prompted sF = prompted s2 @ l" "fst ` set l \<subseteq> {PAction}"
      by blast
    have log: "fst ` set (prompted sF) \<subseteq> {PTemplate, PLlamapack, PAction}"
      "PTemplate \<in> fst ` set (prompted sF) \<longleftrightarrow> PTemplate \<in> fst ` set (prompted s1)"
      using sub1 fP(4) by (auto simp: fP(3) s2)
    have f: "template (program sF) = template (program s1)"
      "template (preferences sF) = template (preferences s1)"
      "llamapack (program sF) = Some a" "llamapack (preferences sF) = Some a"
      by (simp_all add: fP s2)
    have no: "PCommunityProjectPath \<notin> fst ` set (prompted sF)"
      "PFramework \<notin> fst ` set (prompted sF)"
      "PFrontend \<notin> fst ` set (prompted sF)" "PUi \<notin> fst ` set (prompted sF)"
      "PModel \<notin> fst ` set (prompted sF)" "PEmbeddingModel \<notin> fst ` set (prompted sF)"
      "PVectorDb \<notin> fst ` set (prompted sF)" "PToolsName \<notin> fst ` set (prompted sF)"
      "PKey \<notin> fst ` set (prompted sF)" "PEslint \<notin> fst ` set (prompted sF)"
      using log(1) by auto
    show ?thesis using tm a by (simp add: no f log(2))
  next
    case rest
    with after have "askRest e ops s1 = Inr sF" by (simp add: afterTemplate_def)
    note R = askRest_recorded [OF this sub1]
    note f1 = R [THEN conjunct1]
    note f2 = R [THEN conjunct2, THEN conjunct1]
    note f3 = R [THEN conjunct2, THEN conjunct2, THEN conjunct1]
    note f4 = R [THEN conjunct2, THEN conjunct2, THEN conjunct2, THEN conjunct1]
    note f5 = R [THEN conjunct2, THEN conjunct2, THEN conjunct2, THEN conjunct2, THEN conjunct1]
    note R' = R [THEN conjunct2, THEN conjunct2, THEN conjunct2, THEN conjunct2, THEN conjunct2]
    have g1: "PTemplate \<in> fst ` set (prompted sF) \<longrightarrow>
           (\<exists>a. ans_template ops = Answer a \<and> template (program sF) = Some a
              \<and> template (preferences sF) = Some a)"
      using tm by (simp add: f1 f2 f3)
    have g2: "PCommunityProjectPath \<in> fst ` set (prompted sF) \<longrightarrow>
           (\<exists>a. ans_communityProjectPath ops = Answer a
              \<and> communityProjectPath (program sF) = Some a
              \<and> communityProjectPath (preferences sF) = Some a)"
      using f4 by simp
    have g3: "PLlamapack \<in> fst ` set (prompted sF) \<longrightarrow>
           (\<exists>a. ans_llamapack ops = Answer a \<and> llamapack (program sF) = Some a
              \<and> llamapack (preferences sF) = Some a)"
      using f5 by simp
    show ?thesis by (rule conjI [OF g1 conjI [OF g2 conjI [OF g3 R']]])
  qed
qed

theorem answers_recorded_witness:
  "\<exists>sF. askQuestions sampleEnv sampleOperator noArgs noArgs = Inr sF
      \<and> template (program sF) = Some Streaming \<and> template (preferences sF) = Some Streaming
      \<and> framework (program sF) = Some Fastapi \<and> framework (preferences sF) = Some Fastapi
      \<and> openAiKey (program sF) = Some ''sk-1'' \<and> openAiKey (preferences sF) = Some ''sk-1''"
proof -
  have "\<exists>sF. askQuestions sampleEnv sampleOperator noArgs noArgs = Inr sF
      \<and> PTemplate \<in> fst ` set (prompted sF) \<and> PFramework \<in> fst ` set (prompted sF)
      \<and> PKey \<in> fst ` set (prompted sF)"
    by (simp add: flow_defs sample_defs)
  then obtain sF where run: "askQuestions sampleEnv sampleOperator noArgs noArgs = Inr sF"
    and asked: "PTemplate \<in> fst ` set (prompted sF)" "PFramework \<in> fst ` set (prompted sF)"
      "PKey \<in> fst ` set (prompted sF)"
    by blast
  have ans: "ans_template sampleOperator = Answer Streaming"
    "ans_framework sampleOperator = Answer Fastapi" "ans_key sampleOperator = Answer ''sk-1''"
    by (simp_all add: sampleOperator_def)
  note R = answers_recorded [OF run]
  have "template (program sF) = Some Streaming \<and> template (preferences sF) = Some Streaming"
    using R [THEN conjunct1] asked(1) ans(1) by auto
  moreover have "framework (program sF) = Some Fastapi \<and> framework (preferences sF) = Some Fastapi"
    using R [THEN conjunct2, THEN conjunct2, THEN conjunct2, THEN conjunct1] asked(2) ans(2)
    by auto
  moreover have "openAiKey (program sF) = Some ''sk-1'' \<and> openAiKey (preferences sF) = Some ''sk-1''"
    using R [THEN conjunct2, THEN conjunct2, THEN conjunct2, THEN conjunct2, THEN conjunct2,
        THEN conjunct2, THEN conjunct2, THEN conjunct2, THEN conjunct2, THEN conjunct2,
        THEN conjunct1] asked(3) ans(3)
    by auto
  ultimately show ?thesis using run by blast
qed

subsection \<open>Fields that stay unset in a run that returns\<close>

text \<open>
  Under CI, with nothing on the input and no preferences, the engine is resolved but no
  data source is set; with the preference \<open>engine = "context"\<close> and no preference for
  the vector database, the vector database stays unset, since \<open>defaults\<close> has none.
\<close>

lemma ci_dataSource_unset:
  "map_option dataSource
     (finalProgram (askQuestions (sampleEnv\<lparr>isCI := True\<rparr>) sampleOperator noArgs noArgs))
   = Some None"
  by (simp add: flow_defs observe_defs sample_defs)

lemma ci_vectorDb_unset:
  "map_option vectorDb
     (finalProgram (askQuestions (sampleEnv\<lparr>isCI := True\<rparr>) sampleOperator noArgs
        (noArgs\<lparr>engine := Some ContextEngine\<rparr>)))
   = Some None"
  by (simp add: flow_defs observe_defs sample_defs)

section \<open>Properties of PineconeVectorStore.add\<close>

lemma saveChunks_resolves_empty:
  assumes "saveChunks e nodes c i st = Some y"
  shows "\<forall>ids st'. y = (Resolved ids, st') \<longrightarrow> ids = []"
  using assms
  by (rule saveChunks.raw_induct
        [where P = "\<lambda>e nodes c i st y. \<forall>ids st'. y = (Resolved ids, st') \<longrightarrow> ids = []", rotated])
     (auto split: if_splits)

text \<open>With a positive chunk size the loop ends.\<close>

lemma saveChunks_returns:
  assumes "0 < c"
  shows "\<exists>y. saveChunks e nodes c i st = Some y"
proof (induction "nat (int (length nodes) - i)" arbitrary: i st rule: less_induct)
  case less
  show ?case
  proof (cases "i < int (length nodes)")
    case False
    then show ?thesis by (subst saveChunks.simps) simp
  next
    case True
    show ?thesis
    proof (cases "fst (saveChunk e (slice nodes i (i + c)) st)")
      case False
      with True show ?thesis by (subst saveChunks.simps) simp
    next
      case ok: True
      from assms True have "nat (int (length nodes) - (i + c)) < nat (int (length nodes) - i)"
        by simp
      from less [OF this] obtain y where
        "saveChunks e nodes c (i + c) (snd (saveChunk e (slice nodes i (i + c)) st)) = Some y"
        by blast
      with True ok show ?thesis by (subst saveChunks.simps) simp
    qed
  qed
qed

text \<open>
  C10. \<open>add\<close> on the empty list resolves to the empty array and leaves the store as it
  was: no client is created and nothing is sent to the index. On any list, whenever
  \<open>add\<close> resolves, it resolves to the empty array, never to the ids upserted. (With a
  positive chunk size \<open>add\<close> always returns, resolving or rejecting.)
\<close>

theorem add_resolves_empty:
  "add e st [] = Some (Resolved [], st)
   \<and> (\<forall>ids st'. add e st embeddingResults = Some (Resolved ids, st') \<longrightarrow> ids = [])
   \<and> (\<forall>c. chunkSize st = Some c \<and> 0 < c \<longrightarrow> (\<exists>y. add e st embeddingResults = Some y))"
proof (intro conjI allI impI)
  show "add e st [] = Some (Resolved [], st)" by (simp add: add_def)
next
  fix ids st'
  assume r: "add e st embeddingResults = Some (Resolved ids, st')"
  show "ids = []"
  proof (cases "length embeddingResults = 0")
    case True
    with r show ?thesis by (simp add: add_def)
  next
    case False
    with r show ?thesis
      by (auto simp: add_def saveChunksNaN_def
          dest: saveChunks_resolves_empty split: sum.splits option.splits if_splits)
  qed
next
  fix c
  assume c: "chunkSize st = Some c \<and> 0 < c"
  have cs: "chunkSize st1 = Some c" if "index_of e st = Inr st1" for st1
    using that c by (auto simp: index_of_def getDb_def split: if_splits sum.splits)
  show "\<exists>y. add e st embeddingResults = Some y"
    using c saveChunks_returns [of c e]
    by (auto simp: add_def cs split: sum.splits option.splits)
qed

theorem add_resolves_empty_witness:
  "add samplePinecone sampleStore [] = Some (Resolved [], sampleStore)
   \<and> (\<exists>st'. add samplePinecone sampleStore [''a'', ''b'', ''c''] = Some (Resolved [], st')
         \<and> calls st' =
             [NewPinecone, Index ''llama'', Upsert [sampleRecord ''a'', sampleRecord ''b''],
              Upsert [sampleRecord ''c'']])"
proof -
  have "\<exists>ids st'. add samplePinecone sampleStore [''a'', ''b'', ''c''] = Some (Resolved ids, st')
      \<and> calls st' =
          [NewPinecone, Index ''llama'', Upsert [sampleRecord ''a'', sampleRecord ''b''],
           Upsert [sampleRecord ''c'']]"
    by (simp add: add_def index_of_def getDb_def nodeToRecord_def saveChunks.simps saveChunk_def
        slice_def samplePinecone_def sampleStore_def sampleRecord_def)
  then obtain ids st' where
    run: "add samplePinecone sampleStore [''a'', ''b'', ''c''] = Some (Resolved ids, st')"
    and cs: "calls st' =
          [NewPinecone, Index ''llama'', Upsert [sampleRecord ''a'', sampleRecord ''b''],
           Upsert [sampleRecord ''c'']]"
    by blast
  note T = add_resolves_empty [of samplePinecone sampleStore "[''a'', ''b'', ''c'']"]
  from T run have "ids = []" by blast
  with run cs T show ?thesis by blast
qed

end
